theory Spec2Isabelle
  imports Complex_Main
begin

section \<open>Values shared by the widgets of \<^verbatim>\<open>pygamelib/gfx/ui.py\<close>\<close>

text \<open>
  The widgets write cells (\<^verbatim>\<open>core.Sprixel\<close>) into a two-dimensional buffer owned by the
  screen. A Sprixel is built as \<^verbatim>\<open>core.Sprixel(model, bg_color, fg_color)\<close>; a text run is
  built as \<^verbatim>\<open>base.Text(text, fg_color, bg_color)\<close>. Colours may be \<^verbatim>\<open>None\<close>.
\<close>

datatype color = Color int int int

datatype sprixel = Sprixel (model: string) (sprixel_bg: "color option") (sprixel_fg: "color option")

datatype pgl_text = Text (text_of: string) (text_fg: "color option") (text_bg: "color option")

text \<open>The Python values that reach a setter whose body tests the type of its argument.\<close>

datatype pyval = PyNone | PyInt int | PyStr string | PyText pgl_text | PySprixel sprixel

text \<open>Exceptions are values; \<open>Inl\<close> of a result is the exception that was raised.\<close>

datatype error =
    PglInvalidTypeException string
  | ZeroDivisionError
  | IndexError
  | AttributeError

type_synonym buffer = "sprixel list list"

type_synonym stmt = "buffer \<Rightarrow> error + buffer"

text \<open>
  The calls a widget makes on \<^verbatim>\<open>config.game.screen\<close> are recorded in call order, each with
  the game whose screen received it.
\<close>

datatype screen_call = Trigger_rendering | Update | Delete int int

type_synonym screen_log = "(nat \<times> screen_call) list"

record UiConfig =
  game :: nat
  box_vertical_border :: string
  box_horizontal_border :: string
  box_top_left_corner :: string
  box_top_right_corner :: string
  box_bottom_left_corner :: string
  box_bottom_right_corner :: string
  fg_color :: "color option"
  bg_color :: "color option"
  border_fg_color :: "color option"
  border_bg_color :: "color option"
  borderless_dialog :: bool

subsection \<open>Python arithmetic and indexing\<close>


definition py_int :: "rat \<Rightarrow> int" where
  "py_int x = (if 0 \<le> x then floor x else ceiling x)"

definition py_round :: "rat \<Rightarrow> int" where
  "py_round x =
     (let f = floor x; d = x - of_int f
      in if d < 1 / 2 then f else if 1 / 2 < d then f + 1 else if even f then f else f + 1)"

text \<open>\<^verbatim>\<open>range(a, b)\<close>: the integers from \<open>a\<close> up to \<open>b - 1\<close>, none when \<open>b \<le> a\<close>.\<close>

definition py_range :: "int \<Rightarrow> int \<Rightarrow> int list" where
  "py_range a b = map (\<lambda>i. a + int i) [0..<nat (b - a)]"

text \<open>
  Indexing a sequence of length \<open>n\<close> with \<open>i\<close>: a negative index counts from the end, and
  an index outside \<open>-n .. n-1\<close> raises \<^verbatim>\<open>IndexError\<close>.
\<close>

definition py_index :: "nat \<Rightarrow> int \<Rightarrow> nat option" where
  "py_index n i =
     (if 0 \<le> i \<and> i < int n then Some (nat i)
      else if - int n \<le> i \<and> i < 0 then Some (nat (int n + i))
      else None)"

text \<open>\<^verbatim>\<open>buffer[r][c] = x\<close>, the rows of the buffer being distinct objects.\<close>

definition buf_set :: "int \<Rightarrow> int \<Rightarrow> sprixel \<Rightarrow> stmt" where
  "buf_set r c x buffer =
     (case py_index (length buffer) r of
        None \<Rightarrow> Inl IndexError
      | Some i \<Rightarrow>
          (case py_index (length (buffer ! i)) c of
             None \<Rightarrow> Inl IndexError
           | Some j \<Rightarrow> Inr (buffer[i := (buffer ! i)[j := x]])))"

text \<open>Statements in sequence, and a \<^verbatim>\<open>for\<close> loop; an exception ends both.\<close>

fun run_all :: "stmt list \<Rightarrow> stmt" where
  "run_all [] buffer = Inr buffer"
| "run_all (s # ss) buffer =
     (case s buffer of Inl e \<Rightarrow> Inl e | Inr buffer' \<Rightarrow> run_all ss buffer')"

definition for_range :: "int \<Rightarrow> int \<Rightarrow> (int \<Rightarrow> stmt) \<Rightarrow> stmt" where
  "for_range a b body = run_all (map body (py_range a b))"

subsection \<open>Sprites of text\<close>

text \<open>
  Modelled from the spec: \<^verbatim>\<open>core.Sprite.from_text\<close> and \<^verbatim>\<open>Sprite.render_to_buffer\<close> are not
  in this module. The spec gives a text run a renderable object with
  \<^verbatim>\<open>render(buffer, row, column, bufferHeight, bufferWidth)\<close> and a length in character cells,
  and says that nothing is clipped: the sprite of a text has one cell per character, in
  the colours of the text, and rendering writes them from \<open>column\<close> rightwards in \<open>row\<close>.
\<close>

definition Sprite_from_text :: "pgl_text \<Rightarrow> sprixel list" where
  "Sprite_from_text t = map (\<lambda>ch. Sprixel [ch] (text_bg t) (text_fg t)) (text_of t)"

definition Sprite_render_to_buffer :: "sprixel list \<Rightarrow> int \<Rightarrow> int \<Rightarrow> int \<Rightarrow> int \<Rightarrow> stmt" where
  "Sprite_render_to_buffer sprite row column buffer_height buffer_width =
     for_range 0 (int (length sprite)) (\<lambda>i. buf_set row (column + i) (sprite ! nat i))"

text \<open>
  Modelled from the spec: \<^verbatim>\<open>base.Text.length\<close> is the length of the run in character cells.
\<close>

definition text_length :: "pgl_text \<Rightarrow> int" where
  "text_length t = int (length (text_of t))"

section \<open>ProgressBar\<close>

text \<open>
  A marker given to the constructor is a string or a ready Sprixel; the setters store a
  string.
\<close>

datatype marker = MarkerStr string | MarkerSprixel sprixel

record ProgressBar =
  pb_value :: int
  pb_maximum :: int
  pb_width :: int
  pb_progress_marker :: marker
  pb_empty_marker :: marker
  pb_config :: UiConfig
  pb_empty :: sprixel
  pb_progress :: sprixel

text \<open>
  \<^verbatim>\<open>ProgressBar._build_cache\<close>: a Sprixel marker is cached as it is, any other marker
  becomes the model of a Sprixel in the colours of the configuration.
\<close>

definition marker_sprixel :: "marker \<Rightarrow> UiConfig \<Rightarrow> sprixel" where
  "marker_sprixel m config =
     (case m of
        MarkerSprixel s \<Rightarrow> s
      | MarkerStr s \<Rightarrow> Sprixel s (bg_color config) (fg_color config))"

definition ProgressBar_build_cache :: "ProgressBar \<Rightarrow> ProgressBar" where
  "ProgressBar_build_cache self =
     self\<lparr>pb_empty := marker_sprixel (pb_empty_marker self) (pb_config self),
          pb_progress := marker_sprixel (pb_progress_marker self) (pb_config self)\<rparr>"

text \<open>
  \<^verbatim>\<open>ProgressBar.__init__\<close>, given a configuration: the attributes are stored, the cache
  starts empty and is built.
\<close>

definition ProgressBar_attributes ::
  "int \<Rightarrow> int \<Rightarrow> int \<Rightarrow> marker \<Rightarrow> marker \<Rightarrow> UiConfig \<Rightarrow> ProgressBar" where
  "ProgressBar_attributes value maximum width progress_marker empty_marker config =
     \<lparr>pb_value = value, pb_maximum = maximum, pb_width = width,
      pb_progress_marker = progress_marker, pb_empty_marker = empty_marker,
      pb_config = config,
      pb_empty = Sprixel [] None None, pb_progress = Sprixel [] None None\<rparr>"

definition ProgressBar_init ::
  "int \<Rightarrow> int \<Rightarrow> int \<Rightarrow> marker \<Rightarrow> marker \<Rightarrow> UiConfig \<Rightarrow> ProgressBar" where
  "ProgressBar_init value maximum width progress_marker empty_marker config =
     ProgressBar_build_cache
       (ProgressBar_attributes value maximum width progress_marker empty_marker config)"

text \<open>
  The marker setters. A \<^verbatim>\<open>base.Text\<close> stores its string, a \<^verbatim>\<open>str\<close> is stored as it is; the
  assignment to the old cache entry before \<^verbatim>\<open>_build_cache\<close> is overwritten by the rebuild.
  Every setter ends with \<^verbatim>\<open>config.game.screen.trigger_rendering()\<close>.
\<close>

definition trigger_rendering :: "UiConfig \<Rightarrow> screen_log \<Rightarrow> screen_log" where
  "trigger_rendering config calls = calls @ [(game config, Trigger_rendering)]"

definition ProgressBar_set_progress_marker ::
  "pyval \<Rightarrow> ProgressBar \<times> screen_log \<Rightarrow> error + ProgressBar \<times> screen_log" where
  "ProgressBar_set_progress_marker v st =
     (case st of (self, calls) \<Rightarrow>
        (case v of
           PyText t \<Rightarrow>
             Inr (ProgressBar_build_cache (self\<lparr>pb_progress_marker := MarkerStr (text_of t)\<rparr>),
                  trigger_rendering (pb_config self) calls)
         | PyStr s \<Rightarrow>
             Inr (ProgressBar_build_cache (self\<lparr>pb_progress_marker := MarkerStr s\<rparr>),
                  trigger_rendering (pb_config self) calls)
         | _ \<Rightarrow>
             Inl (PglInvalidTypeException
               ''ProgressDialog.progress_marker: value needs to be a str or pygamelib.base.Text.'')))"

definition ProgressBar_get_progress_marker :: "ProgressBar \<Rightarrow> marker" where
  "ProgressBar_get_progress_marker self = pb_progress_marker self"

definition ProgressBar_set_empty_marker ::
  "pyval \<Rightarrow> ProgressBar \<times> screen_log \<Rightarrow> error + ProgressBar \<times> screen_log" where
  "ProgressBar_set_empty_marker v st =
     (case st of (self, calls) \<Rightarrow>
        (case v of
           PyText t \<Rightarrow>
             Inr (ProgressBar_build_cache (self\<lparr>pb_empty_marker := MarkerStr (text_of t)\<rparr>),
                  trigger_rendering (pb_config self) calls)
         | PyStr s \<Rightarrow>
             Inr (ProgressBar_build_cache (self\<lparr>pb_empty_marker := MarkerStr s\<rparr>),
                  trigger_rendering (pb_config self) calls)
         | _ \<Rightarrow>
             Inl (PglInvalidTypeException
               ''ProgressDialog.empty_marker: value needs to be a str or pygamelib.base.Text.'')))"

text \<open>The getter of \<^verbatim>\<open>empty_marker\<close> returns \<^verbatim>\<open>self.__progress_marker\<close>.\<close>

definition ProgressBar_get_empty_marker :: "ProgressBar \<Rightarrow> marker" where
  "ProgressBar_get_empty_marker self = pb_progress_marker self"


definition ProgressBar_set_maximum ::
  "pyval \<Rightarrow> ProgressBar \<times> screen_log \<Rightarrow> error + ProgressBar \<times> screen_log" where
  "ProgressBar_set_maximum v st =
     (case st of (self, calls) \<Rightarrow>
        (case v of
           PyInt n \<Rightarrow> Inr (self\<lparr>pb_maximum := n\<rparr>, trigger_rendering (pb_config self) calls)
         | _ \<Rightarrow> Inl (PglInvalidTypeException ''ProgressDialog.maximum: value needs to be an int.'')))"


section \<open>Box\<close>

text \<open>The title of a Box is a \<^verbatim>\<open>str\<close> or a \<^verbatim>\<open>base.Text\<close>.\<close>

datatype title = TitleStr string | TitleText pgl_text

text \<open>
  The attributes of a Box and the entries of its cache, under the keys the source gives
  them.
\<close>

record Box =
  box_width :: int
  box_height :: int
  box_title :: title
  box_config :: UiConfig
  dialog_vertical_border :: sprixel
  dialog_horizontal_border :: sprixel
  top_right_corner :: sprixel
  top_left_corner :: sprixel
  bottom_right_corner :: sprixel
  bottom_left_corner :: sprixel
  cache_title :: pgl_text
  title_sprite :: "sprixel list"

text \<open>
  \<^verbatim>\<open>Box._build_cache\<close>. The entry \<^verbatim>\<open>top_right_corner\<close> is built from
  \<^verbatim>\<open>config.box_top_left_corner\<close>, \<^verbatim>\<open>top_left_corner\<close> from \<^verbatim>\<open>config.box_top_right_corner\<close>, and
  the two bottom entries are crossed in the same way.
\<close>

definition border_sprixel :: "string \<Rightarrow> UiConfig \<Rightarrow> sprixel" where
  "border_sprixel glyph config = Sprixel glyph (border_bg_color config) (border_fg_color config)"

definition Box_build_cache :: "Box \<Rightarrow> Box" where
  "Box_build_cache self =
     (let config = box_config self;
          t = (case box_title self of
                 TitleText t \<Rightarrow> t
               | TitleStr s \<Rightarrow> Text s (border_fg_color config) (border_bg_color config))
      in self\<lparr>dialog_vertical_border := border_sprixel (box_vertical_border config) config,
              dialog_horizontal_border := border_sprixel (box_horizontal_border config) config,
              top_right_corner := border_sprixel (box_top_left_corner config) config,
              top_left_corner := border_sprixel (box_top_right_corner config) config,
              bottom_right_corner := border_sprixel (box_bottom_left_corner config) config,
              bottom_left_corner := border_sprixel (box_bottom_right_corner config) config,
              cache_title := t,
              title_sprite := Sprite_from_text t\<rparr>)"

text \<open>
  \<^verbatim>\<open>Box.__init__\<close> stores the four attributes, starts with an empty cache and builds it;
  without a configuration the first attribute read of \<^verbatim>\<open>_build_cache\<close> fails.
\<close>

definition Box_attributes :: "int \<Rightarrow> int \<Rightarrow> title \<Rightarrow> UiConfig \<Rightarrow> Box" where
  "Box_attributes width height title config =
     \<lparr>box_width = width, box_height = height, box_title = title, box_config = config,
      dialog_vertical_border = Sprixel [] None None,
      dialog_horizontal_border = Sprixel [] None None,
      top_right_corner = Sprixel [] None None,
      top_left_corner = Sprixel [] None None,
      bottom_right_corner = Sprixel [] None None,
      bottom_left_corner = Sprixel [] None None,
      cache_title = Text [] None None,
      title_sprite = []\<rparr>"

definition Box_init :: "int \<Rightarrow> int \<Rightarrow> title \<Rightarrow> UiConfig option \<Rightarrow> error + Box" where
  "Box_init width height title config =
     (case config of
        None \<Rightarrow> Inl AttributeError
      | Some cfg \<Rightarrow> Inr (Box_build_cache (Box_attributes width height title cfg)))"

text \<open>
  Modelled from the spec: \<^verbatim>\<open>base.Text\<close> is not in this module, and with it the outcome of
  \<^verbatim>\<open>self._cache["title"] == ""\<close>. The spec names the two branches "No title" and "Title
  present": the comparison holds exactly when the text of the title is the given string.
\<close>

definition text_eq_str :: "pgl_text \<Rightarrow> string \<Rightarrow> bool" where
  "text_eq_str t s = (text_of t = s)"

text \<open>
  \<^verbatim>\<open>Box.render_to_buffer\<close>, statement by statement: the corner at \<open>(row, column)\<close>, the top
  row with or without the title, the corner at its end, the two cells of every side row,
  and the bottom row.
\<close>

definition Box_render_to_buffer :: "Box \<Rightarrow> int \<Rightarrow> int \<Rightarrow> int \<Rightarrow> int \<Rightarrow> stmt" where
  "Box_render_to_buffer self row column buffer_height buffer_width =
     (let vert_sprix = dialog_vertical_border self;
          horiz_sprix = dialog_horizontal_border self;
          width = box_width self;
          height = box_height self;
          len_title = int (length (text_of (cache_title self)))
      in run_all
           [buf_set row column (top_right_corner self),
            (if text_eq_str (cache_title self) []
             then for_range (column + 1) (column + width - 1) (\<lambda>c. buf_set row c horiz_sprix)
             else
               (let cs = column + 1 + py_int (of_int width / 2 - 1 - of_int len_title / 2)
                           + len_title
                in run_all
                     [for_range (column + 1)
                        (column + 1 + py_round (of_int width / 2 - of_int len_title / 2))
                        (\<lambda>c. buf_set row c horiz_sprix),
                      Sprite_render_to_buffer (title_sprite self) row
                        (column + 1 + py_int (of_int width / 2 - 1 - of_int len_title / 2))
                        buffer_height buffer_width,
                      for_range cs (cs + py_int (of_int width / 2 - of_int len_title / 2))
                        (\<lambda>c. buf_set row c horiz_sprix)])),
            buf_set row (column + width - 1) (top_left_corner self),
            for_range 1 (height - 1)
              (\<lambda>r. run_all
                     [buf_set (row + r) column vert_sprix,
                      buf_set (row + r) (column + width - 1) vert_sprix]),
            buf_set (row + height - 1) column (bottom_right_corner self),
            for_range (column + 1) (column + width - 1)
              (\<lambda>c. buf_set (row + height - 1) c horiz_sprix),
            buf_set (row + height - 1) (column + width - 1) (bottom_left_corner self)])"

section \<open>Dialog and ProgressDialog\<close>

text \<open>A label is a \<^verbatim>\<open>str\<close> or a \<^verbatim>\<open>base.Text\<close>.\<close>

datatype label = LabelStr string | LabelText pgl_text

text \<open>
  The attributes of a ProgressDialog, those of its base class \<^verbatim>\<open>Dialog\<close> first, and the three
  entries of its cache. The entry \<^verbatim>\<open>borders\<close> exists only once a cache was built with a
  configuration that is not borderless.
\<close>

record ProgressDialog =
  pd_config :: UiConfig
  pd_user_input :: string
  pd_label :: label
  pd_value :: int
  pd_maximum :: int
  pd_width :: int
  pd_progress_marker :: marker
  pd_empty_marker :: marker
  pd_adaptive_width :: bool
  destroy_on_complete :: bool
  pd_destroy :: bool
  cache_label :: pgl_text
  cache_pb :: ProgressBar
  cache_borders :: "Box option"

text \<open>\<^verbatim>\<open>ProgressDialog._build_cache\<close>.\<close>

definition ProgressDialog_build_cache :: "ProgressDialog \<Rightarrow> ProgressDialog" where
  "ProgressDialog_build_cache self =
     (let config = pd_config self;
          lbl = (case pd_label self of
                   LabelText t \<Rightarrow> t
                 | LabelStr s \<Rightarrow> Text s (fg_color config) (bg_color config));
          width = (if pd_adaptive_width self \<and> pd_width self \<noteq> text_length lbl
                   then int (length (text_of lbl)) else pd_width self);
          pb = ProgressBar_init (pd_value self) (pd_maximum self) width
                 (pd_progress_marker self) (pd_empty_marker self) config
      in self\<lparr>pd_width := width,
              cache_label := lbl,
              cache_pb := pb,
              cache_borders :=
                (if \<not> borderless_dialog config
                 then Some (Box_build_cache (Box_attributes width 2 (TitleText lbl) config))
                 else cache_borders self)\<rparr>)"

text \<open>
  \<^verbatim>\<open>ProgressDialog.__init__\<close>; \<^verbatim>\<open>Dialog.__init__\<close> refuses a missing configuration.
\<close>

definition ProgressDialog_attributes ::
  "label \<Rightarrow> int \<Rightarrow> int \<Rightarrow> int \<Rightarrow> marker \<Rightarrow> marker \<Rightarrow> bool \<Rightarrow> bool \<Rightarrow> UiConfig \<Rightarrow> ProgressDialog"
  where
  "ProgressDialog_attributes label value maximum width progress_marker empty_marker
       adaptive_width destroy config =
     \<lparr>pd_config = config, pd_user_input = [], pd_label = label, pd_value = value,
      pd_maximum = maximum, pd_width = width, pd_progress_marker = progress_marker,
      pd_empty_marker = empty_marker, pd_adaptive_width = adaptive_width,
      destroy_on_complete = destroy, pd_destroy = False,
      cache_label = Text [] None None,
      cache_pb = ProgressBar_attributes 0 0 0 (MarkerStr []) (MarkerStr []) config,
      cache_borders = None\<rparr>"

definition ProgressDialog_init ::
  "label \<Rightarrow> int \<Rightarrow> int \<Rightarrow> int \<Rightarrow> marker \<Rightarrow> marker \<Rightarrow> bool \<Rightarrow> bool \<Rightarrow> UiConfig option
     \<Rightarrow> error + ProgressDialog" where
  "ProgressDialog_init label value maximum width progress_marker empty_marker
       adaptive_width destroy config =
     (case config of
        None \<Rightarrow>
          Inl (PglInvalidTypeException
            ''The config parameter cannot be None and needs to be a UiConfig object.'')
      | Some cfg \<Rightarrow>
          Inr (ProgressDialog_build_cache
                 (ProgressDialog_attributes label value maximum width progress_marker
                    empty_marker adaptive_width destroy cfg)))"






section \<open>LineInputDialog and MultiLineInputDialog\<close>

text \<open>
  What \<^verbatim>\<open>terminal.inkey(timeout=0.1)\<close> returns: a string with a \<^verbatim>\<open>name\<close>, which is \<^verbatim>\<open>None\<close>
  for a plain character; the empty string when the timeout passed without a key.
\<close>

record keystroke =
  key_name :: "string option"
  key_text :: string

text \<open>
  \<^verbatim>\<open>str.isprintable\<close> and \<^verbatim>\<open>str.isdigit\<close> on the characters of a keystroke; characters are
  bytes here, and the two tests are Python's on the ASCII range.
\<close>

definition char_isprintable :: "char \<Rightarrow> bool" where
  "char_isprintable ch = (32 \<le> (of_char ch :: nat) \<and> (of_char ch :: nat) \<le> 126)"

definition char_isdigit :: "char \<Rightarrow> bool" where
  "char_isdigit ch = (48 \<le> (of_char ch :: nat) \<and> (of_char ch :: nat) \<le> 57)"

definition isprintable :: "string \<Rightarrow> bool" where
  "isprintable s = list_all char_isprintable s"

definition isdigit :: "string \<Rightarrow> bool" where
  "isdigit s = (s \<noteq> [] \<and> list_all char_isdigit s)"

text \<open>
  Modelled from the spec: \<^verbatim>\<open>constants.PRINTABLE_FILTER\<close> and \<^verbatim>\<open>constants.INTEGER_FILTER\<close> are
  not in this module. The spec gives a field the filter kind printable or digit; any other
  value given as a filter equals neither constant.
\<close>

datatype input_filter = PRINTABLE_FILTER | INTEGER_FILTER | OTHER_FILTER

text \<open>One turn of a \<^verbatim>\<open>while 1\<close> loop either goes on or leaves the loop by \<^verbatim>\<open>break\<close>.\<close>

datatype 'a turn = Continue 'a | Break 'a

record LineInputDialog =
  lid_config :: UiConfig
  lid_user_input :: string
  lid_label :: pgl_text
  lid_default :: string
  lid_filter :: input_filter

text \<open>
  \<^verbatim>\<open>LineInputDialog.__init__\<close>, the default already a string: a label that is neither a
  \<^verbatim>\<open>str\<close> nor a \<^verbatim>\<open>base.Text\<close> is refused, a \<^verbatim>\<open>str\<close> label becomes a Text without colours, and
  the input buffer starts as the default.
\<close>

definition LineInputDialog_init ::
  "pyval \<Rightarrow> string \<Rightarrow> input_filter \<Rightarrow> UiConfig option \<Rightarrow> error + LineInputDialog" where
  "LineInputDialog_init label default_text filter_kind config =
     (case config of
        None \<Rightarrow>
          Inl (PglInvalidTypeException
            ''The config parameter cannot be None and needs to be a UiConfig object.'')
      | Some cfg \<Rightarrow>
          (case label of
             PyText t \<Rightarrow>
               Inr \<lparr>lid_config = cfg, lid_user_input = default_text, lid_label = t,
                    lid_default = default_text, lid_filter = filter_kind\<rparr>
           | PyStr s \<Rightarrow>
               Inr \<lparr>lid_config = cfg, lid_user_input = default_text, lid_label = Text s None None,
                    lid_default = default_text, lid_filter = filter_kind\<rparr>
           | _ \<Rightarrow>
               Inl (PglInvalidTypeException
                 ''LineInputDialog: label must be a str or pygamelib.base.Text.'')))"

text \<open>\<^verbatim>\<open>screen.trigger_rendering()\<close> followed by \<^verbatim>\<open>screen.update()\<close>.\<close>

definition redraw :: "UiConfig \<Rightarrow> screen_log \<Rightarrow> screen_log" where
  "redraw config calls = calls @ [(game config, Trigger_rendering), (game config, Update)]"

text \<open>
  The body of the loop of \<^verbatim>\<open>LineInputDialog.show\<close> for the keystroke read last, in the order
  of the \<^verbatim>\<open>if\<close>/\<^verbatim>\<open>elif\<close> chain.
\<close>

definition LineInputDialog_key ::
  "keystroke \<Rightarrow> LineInputDialog \<times> screen_log \<Rightarrow> (LineInputDialog \<times> screen_log) turn" where
  "LineInputDialog_key inkey st =
     (case st of (self, calls) \<Rightarrow>
        if key_text inkey \<noteq> [] then
          if key_name inkey = Some ''KEY_ENTER'' then Break (self, calls)
          else if key_name inkey = Some ''KEY_ESCAPE''
            then Break (self\<lparr>lid_user_input := []\<rparr>, calls)
          else if key_name inkey = Some ''KEY_BACKSPACE'' \<or> key_name inkey = Some ''KEY_DELETE''
            then Continue (self\<lparr>lid_user_input := butlast (lid_user_input self)\<rparr>,
                           redraw (lid_config self) calls)
          else if (lid_filter self = PRINTABLE_FILTER \<and> isprintable (key_text inkey))
                \<or> (lid_filter self = INTEGER_FILTER \<and> isdigit (key_text inkey))
            then Continue (self\<lparr>lid_user_input := lid_user_input self @ key_text inkey\<rparr>,
                           redraw (lid_config self) calls)
          else Continue (self, calls)
        else Continue (self, calls))"

text \<open>
  The loop, over the keystrokes the terminal returns one after the other. It leaves by
  \<^verbatim>\<open>break\<close> only; when the keystrokes given are used up the loop is still polling, which is
  the result \<open>None\<close>.
\<close>

fun LineInputDialog_loop ::
  "keystroke list \<Rightarrow> LineInputDialog \<times> screen_log \<Rightarrow> (LineInputDialog \<times> screen_log) option"
  where
  "LineInputDialog_loop [] st = None"
| "LineInputDialog_loop (inkey # keys) st =
     (case LineInputDialog_key inkey st of
        Break st' \<Rightarrow> Some st'
      | Continue st' \<Rightarrow> LineInputDialog_loop keys st')"

text \<open>\<^verbatim>\<open>LineInputDialog.show\<close>: one \<^verbatim>\<open>screen.update()\<close>, the loop, and the input buffer returned.\<close>

definition LineInputDialog_show ::
  "keystroke list \<Rightarrow> LineInputDialog \<times> screen_log
     \<Rightarrow> (string \<times> LineInputDialog \<times> screen_log) option" where
  "LineInputDialog_show keys st =
     (case st of (self, calls) \<Rightarrow>
        (case LineInputDialog_loop keys (self, calls @ [(game (lid_config self), Update)]) of
           None \<Rightarrow> None
         | Some (self', calls') \<Rightarrow> Some (lid_user_input self', self', calls')))"

text \<open>
  A field of a MultiLineInputDialog is a dictionary with the keys \<^verbatim>\<open>label\<close>, \<^verbatim>\<open>default\<close>,
  \<^verbatim>\<open>filter\<close> and, once a cache was built, \<^verbatim>\<open>user_input\<close>.
\<close>

record dialog_field =
  fld_label :: label
  fld_default :: string
  fld_filter :: input_filter
  fld_user_input :: string

record MultiLineInputDialog =
  mld_config :: UiConfig
  mld_user_input :: string
  mld_fields :: "dialog_field list"
  mld_cache :: "pgl_text list"
  mld_current_field :: int

text \<open>
  \<^verbatim>\<open>MultiLineInputDialog._build_cache\<close>: one Text per label, and every input buffer reset to
  the default of its field.
\<close>

definition MultiLineInputDialog_build_cache :: "MultiLineInputDialog \<Rightarrow> MultiLineInputDialog" where
  "MultiLineInputDialog_build_cache self =
     self\<lparr>mld_cache :=
            map (\<lambda>field. case fld_label field of
                            LabelText t \<Rightarrow> t
                          | LabelStr s \<Rightarrow> Text s None None)
                (mld_fields self),
          mld_fields :=
            map (\<lambda>field. field\<lparr>fld_user_input := fld_default field\<rparr>) (mld_fields self)\<rparr>"

text \<open>
  \<^verbatim>\<open>MultiLineInputDialog.__init__\<close>; \<open>None\<close> for the fields stands for any value that is not
  a list.
\<close>

definition MultiLineInputDialog_init ::
  "dialog_field list option \<Rightarrow> UiConfig option \<Rightarrow> error + MultiLineInputDialog" where
  "MultiLineInputDialog_init field_list config =
     (case config of
        None \<Rightarrow>
          Inl (PglInvalidTypeException
            ''The config parameter cannot be None and needs to be a UiConfig object.'')
      | Some cfg \<Rightarrow>
          (case field_list of
             None \<Rightarrow>
               Inl (PglInvalidTypeException
                 ''MultiInputDialog: fields must be a list of dictionaries.'')
           | Some fs \<Rightarrow>
               Inr (MultiLineInputDialog_build_cache
                      \<lparr>mld_config = cfg, mld_user_input = [], mld_fields = fs,
                       mld_cache = [], mld_current_field = 0\<rparr>)))"

text \<open>
  \<^verbatim>\<open>self.__fields[self.__current_field]\<close>, and the same field with a new input buffer stored
  in place.
\<close>

definition current_field :: "MultiLineInputDialog \<Rightarrow> error + dialog_field" where
  "current_field self =
     (case py_index (length (mld_fields self)) (mld_current_field self) of
        None \<Rightarrow> Inl IndexError
      | Some i \<Rightarrow> Inr (mld_fields self ! i))"

definition set_current_input :: "string \<Rightarrow> MultiLineInputDialog \<Rightarrow> error + MultiLineInputDialog"
  where
  "set_current_input s self =
     (case py_index (length (mld_fields self)) (mld_current_field self) of
        None \<Rightarrow> Inl IndexError
      | Some i \<Rightarrow>
          Inr (self\<lparr>mld_fields := (mld_fields self)[i := (mld_fields self ! i)\<lparr>fld_user_input := s\<rparr>]\<rparr>))"

text \<open>
  The body of the loop of \<^verbatim>\<open>MultiLineInputDialog.show\<close>. The modulo by the number of fields
  and the indexing of the fields raise when there is no field.
\<close>

definition MultiLineInputDialog_key ::
  "keystroke \<Rightarrow> MultiLineInputDialog \<times> screen_log
     \<Rightarrow> error + (MultiLineInputDialog \<times> screen_log) turn" where
  "MultiLineInputDialog_key inkey st =
     (case st of (self, calls) \<Rightarrow>
        if key_text inkey \<noteq> [] then
          if key_name inkey = Some ''KEY_ENTER'' then Inr (Break (self, calls))
          else if key_name inkey = Some ''KEY_TAB'' then
            (if length (mld_fields self) = 0 then Inl ZeroDivisionError
             else Inr (Continue
               (self\<lparr>mld_current_field :=
                        (mld_current_field self + 1) mod int (length (mld_fields self))\<rparr>,
                redraw (mld_config self) calls)))
          else if key_name inkey = Some ''KEY_ESCAPE'' then
            Inr (Break
              (self\<lparr>mld_fields :=
                       map (\<lambda>field. field\<lparr>fld_user_input := []\<rparr>) (mld_fields self)\<rparr>,
               calls))
          else if key_name inkey = Some ''KEY_BACKSPACE'' \<or> key_name inkey = Some ''KEY_DELETE''
          then
            (case current_field self of
               Inl e \<Rightarrow> Inl e
             | Inr field \<Rightarrow>
                 (case set_current_input (butlast (fld_user_input field)) self of
                    Inl e \<Rightarrow> Inl e
                  | Inr self' \<Rightarrow> Inr (Continue (self', redraw (mld_config self) calls))))
          else
            (case current_field self of
               Inl e \<Rightarrow> Inl e
             | Inr field \<Rightarrow>
                 if (fld_filter field = PRINTABLE_FILTER \<and> isprintable (key_text inkey))
                  \<or> (fld_filter field = INTEGER_FILTER \<and> isdigit (key_text inkey))
                 then
                   (case set_current_input (fld_user_input field @ key_text inkey) self of
                      Inl e \<Rightarrow> Inl e
                    | Inr self' \<Rightarrow> Inr (Continue (self', redraw (mld_config self) calls)))
                 else Inr (Continue (self, calls)))
        else Inr (Continue (self, calls)))"

fun MultiLineInputDialog_loop ::
  "keystroke list \<Rightarrow> MultiLineInputDialog \<times> screen_log
     \<Rightarrow> (error + MultiLineInputDialog \<times> screen_log) option" where
  "MultiLineInputDialog_loop [] st = None"
| "MultiLineInputDialog_loop (inkey # keys) st =
     (case MultiLineInputDialog_key inkey st of
        Inl e \<Rightarrow> Some (Inl e)
      | Inr (Break st') \<Rightarrow> Some (Inr st')
      | Inr (Continue st') \<Rightarrow> MultiLineInputDialog_loop keys st')"

text \<open>
  \<^verbatim>\<open>MultiLineInputDialog.show\<close>: a redraw, the current field set to 0, the loop, and the
  fields returned.
\<close>

definition MultiLineInputDialog_show ::
  "keystroke list \<Rightarrow> MultiLineInputDialog \<times> screen_log
     \<Rightarrow> (error + dialog_field list \<times> MultiLineInputDialog \<times> screen_log) option" where
  "MultiLineInputDialog_show keys st =
     (case st of (self, calls) \<Rightarrow>
        (case MultiLineInputDialog_loop keys
                (self\<lparr>mld_current_field := 0\<rparr>, redraw (mld_config self) calls) of
           None \<Rightarrow> None
         | Some (Inl e) \<Rightarrow> Some (Inl e)
         | Some (Inr (self', calls')) \<Rightarrow> Some (Inr (mld_fields self', self', calls'))))"

section \<open>Concrete inputs\<close>

text \<open>
  A configuration with the default colours of \<^verbatim>\<open>UiConfig\<close> and with border glyphs that
  name the side they are configured for.
\<close>

definition example_config :: UiConfig where
  "example_config =
     \<lparr>game = 0,
      box_vertical_border = ''|'',
      box_horizontal_border = ''-'',
      box_top_left_corner = ''TL'',
      box_top_right_corner = ''TR'',
      box_bottom_left_corner = ''BL'',
      box_bottom_right_corner = ''BR'',
      fg_color = Some (Color 255 255 255),
      bg_color = Some (Color 0 128 128),
      border_fg_color = Some (Color 255 255 255),
      border_bg_color = None,
      borderless_dialog = True\<rparr>"

text \<open>A cell no widget of the examples writes, and a buffer filled with it.\<close>

definition blank :: sprixel where
  "blank = Sprixel ''.'' None None"

definition blank_buffer :: "nat \<Rightarrow> nat \<Rightarrow> buffer" where
  "blank_buffer bh bw = replicate bh (replicate bw blank)"

text \<open>\<^verbatim>\<open>ProgressBar(value, maximum, width, "#", " ", config)\<close> after its constructor.\<close>

definition example_bar :: "int \<Rightarrow> int \<Rightarrow> int \<Rightarrow> ProgressBar" where
  "example_bar value maximum width =
     ProgressBar_init value maximum width (MarkerStr ''#'') (MarkerStr '' '') example_config"


text \<open>\<^verbatim>\<open>Box(width, height, title, config)\<close> after its constructor, the title a \<^verbatim>\<open>str\<close>.\<close>

definition example_box :: "int \<Rightarrow> int \<Rightarrow> string \<Rightarrow> Box" where
  "example_box width height title =
     Box_build_cache (Box_attributes width height (TitleStr title) example_config)"

text \<open>
  Keystrokes: a plain character has no name; Enter, Escape, Backspace and Tab come with
  their names and a control character as text.
\<close>

definition plain_key :: "char \<Rightarrow> keystroke" where
  "plain_key ch = \<lparr>key_name = None, key_text = [ch]\<rparr>"

definition key_enter :: keystroke where
  "key_enter = \<lparr>key_name = Some ''KEY_ENTER'', key_text = [char_of (10 :: nat)]\<rparr>"

definition key_escape :: keystroke where
  "key_escape = \<lparr>key_name = Some ''KEY_ESCAPE'', key_text = [char_of (27 :: nat)]\<rparr>"

definition key_backspace :: keystroke where
  "key_backspace = \<lparr>key_name = Some ''KEY_BACKSPACE'', key_text = [char_of (127 :: nat)]\<rparr>"

definition key_tab :: keystroke where
  "key_tab = \<lparr>key_name = Some ''KEY_TAB'', key_text = [char_of (9 :: nat)]\<rparr>"

text \<open>\<^verbatim>\<open>LineInputDialog(config=config)\<close> with its default label, default and filter.\<close>

definition example_line_input :: LineInputDialog where
  "example_line_input =
     \<lparr>lid_config = example_config, lid_user_input = [],
      lid_label = Text ''Input a value:'' None None,
      lid_default = [], lid_filter = PRINTABLE_FILTER\<rparr>"

text \<open>A MultiLineInputDialog with three fields after its constructor, the second for digits.\<close>

definition example_fields :: "dialog_field list" where
  "example_fields =
     [\<lparr>fld_label = LabelStr ''Name:'', fld_default = ''x'', fld_filter = PRINTABLE_FILTER,
       fld_user_input = []\<rparr>,
      \<lparr>fld_label = LabelStr ''Age:'', fld_default = ''4'', fld_filter = INTEGER_FILTER,
       fld_user_input = []\<rparr>,
      \<lparr>fld_label = LabelStr ''Town:'', fld_default = [], fld_filter = PRINTABLE_FILTER,
       fld_user_input = []\<rparr>]"

definition example_multi_input :: MultiLineInputDialog where
  "example_multi_input =
     MultiLineInputDialog_build_cache
       \<lparr>mld_config = example_config, mld_user_input = [], mld_fields = example_fields,
        mld_cache = [], mld_current_field = 0\<rparr>"




section \<open>Specification vocabulary\<close>

text \<open>
  A buffer of \<open>bh\<close> rows of \<open>bw\<close> cells each; the effect of a statement as the cells it
  leaves in the buffer, by position; a statement realises an effect when it returns, on
  every such buffer, the buffer overlaid with the effect.
\<close>

definition rect :: "buffer \<Rightarrow> nat \<Rightarrow> nat \<Rightarrow> bool" where
  "rect b bh bw = (length b = bh \<and> list_all (\<lambda>r. length r = bw) b)"

type_synonym effect = "int \<times> int \<Rightarrow> sprixel option"

definition overlay :: "effect \<Rightarrow> buffer \<Rightarrow> nat \<Rightarrow> nat \<Rightarrow> sprixel" where
  "overlay eff b r c = (case eff (int r, int c) of None \<Rightarrow> b ! r ! c | Some x \<Rightarrow> x)"

definition realises :: "stmt \<Rightarrow> effect \<Rightarrow> nat \<Rightarrow> nat \<Rightarrow> bool" where
  "realises s eff bh bw =
     (\<forall>b. rect b bh bw \<longrightarrow>
        (\<exists>b'. s b = Inr b' \<and> rect b' bh bw \<and>
           (\<forall>r < bh. \<forall>c < bw. b' ! r ! c = overlay eff b r c)))"


text \<open>The effects of the two iterations that write a run of cells in one row.\<close>

definition fill_eff :: "int \<Rightarrow> int \<Rightarrow> int \<Rightarrow> sprixel \<Rightarrow> effect" where
  "fill_eff row lo hi x = (\<lambda>(r, c). if r = row \<and> lo \<le> c \<and> c < hi then Some x else None)"

definition sprite_eff :: "int \<Rightarrow> int \<Rightarrow> sprixel list \<Rightarrow> effect" where
  "sprite_eff row column sprite =
     (\<lambda>(r, c). if r = row \<and> column \<le> c \<and> c < column + int (length sprite)
                then Some (sprite ! nat (c - column)) else None)"





text \<open>
  The effect of the loop over the side rows of a box, of its top row, and of the whole
  render, statement after statement.
\<close>

definition sides_eff :: "int \<Rightarrow> int \<Rightarrow> int \<Rightarrow> int \<Rightarrow> sprixel \<Rightarrow> effect" where
  "sides_eff row column width height x =
     (\<lambda>(r, c). if row + 1 \<le> r \<and> r < row + height - 1 \<and> (c = column \<or> c = column + width - 1)
                then Some x else None)"

definition top_row_eff :: "Box \<Rightarrow> int \<Rightarrow> int \<Rightarrow> effect" where
  "top_row_eff self row column =
     (let width = box_width self;
          len_title = int (length (text_of (cache_title self)));
          start = column + 1 + py_int (of_int width / 2 - 1 - of_int len_title / 2);
          cs = start + len_title
      in if text_of (cache_title self) = []
         then fill_eff row (column + 1) (column + width - 1) (dialog_horizontal_border self)
         else fill_eff row (column + 1)
                (column + 1 + py_round (of_int width / 2 - of_int len_title / 2))
                (dialog_horizontal_border self)
              ++ (sprite_eff row start (title_sprite self)
              ++ fill_eff row cs (cs + py_int (of_int width / 2 - of_int len_title / 2))
                   (dialog_horizontal_border self)))"

definition Box_eff :: "Box \<Rightarrow> int \<Rightarrow> int \<Rightarrow> effect" where
  "Box_eff self row column =
     (let width = box_width self; height = box_height self
      in fill_eff row column (column + 1) (top_right_corner self)
         ++ (top_row_eff self row column
         ++ (fill_eff row (column + width - 1) (column + width - 1 + 1) (top_left_corner self)
         ++ (sides_eff row column width height (dialog_vertical_border self)
         ++ (fill_eff (row + height - 1) column (column + 1) (bottom_right_corner self)
         ++ (fill_eff (row + height - 1) (column + 1) (column + width - 1)
               (dialog_horizontal_border self)
         ++ fill_eff (row + height - 1) (column + width - 1) (column + width - 1 + 1)
              (bottom_left_corner self)))))))"

text \<open>
  What a render left in the buffer: one cell, and a run of \<open>n\<close> cells of a row from a column
  on. A render that raised left nothing.
\<close>

definition rendered_cell :: "error + buffer \<Rightarrow> nat \<Rightarrow> nat \<Rightarrow> sprixel option" where
  "rendered_cell res r c = (case res of Inl e \<Rightarrow> None | Inr b \<Rightarrow> Some (b ! r ! c))"

definition rendered_row :: "error + buffer \<Rightarrow> nat \<Rightarrow> nat \<Rightarrow> nat \<Rightarrow> sprixel list option" where
  "rendered_row res r c n = (case res of Inl e \<Rightarrow> None | Inr b \<Rightarrow> Some (take n (drop c (b ! r))))"

text \<open>The characters of a title.\<close>

definition title_text :: "title \<Rightarrow> string" where
  "title_text t = (case t of TitleStr s \<Rightarrow> s | TitleText x \<Rightarrow> text_of x)"

text \<open>
  The top row of a titled box in the words of the spec: a corner, a left segment of
  \<open>round(width/2 - titleLength/2)\<close> horizontal cells, the title run, a right segment of
  \<open>width - 2 - titleLength - leftSegment\<close> horizontal cells, a corner.
\<close>

definition titled_top_row_as_specified :: "Box \<Rightarrow> sprixel list" where
  "titled_top_row_as_specified self =
     (let width = box_width self;
          len_title = int (length (text_of (cache_title self)));
          left_segment = py_round (of_int width / 2 - of_int len_title / 2);
          right_segment = width - 2 - len_title - left_segment
      in [top_right_corner self]
         @ replicate (nat left_segment) (dialog_horizontal_border self)
         @ title_sprite self
         @ replicate (nat right_segment) (dialog_horizontal_border self)
         @ [top_left_corner self])"

text \<open>The cells of the border of a box placed at \<open>(row, column)\<close>.\<close>

definition on_border :: "Box \<Rightarrow> int \<Rightarrow> int \<Rightarrow> int \<Rightarrow> int \<Rightarrow> bool" where
  "on_border self row column r c =
     (row \<le> r \<and> r \<le> row + box_height self - 1 \<and>
      column \<le> c \<and> c \<le> column + box_width self - 1 \<and>
      (r = row \<or> r = row + box_height self - 1 \<or>
       c = column \<or> c = column + box_width self - 1))"

text \<open>
  The state of the loop of \<^verbatim>\<open>MultiLineInputDialog.show\<close> after a run of keystrokes none of
  which left the loop or raised; \<open>None\<close> when one of them did.
\<close>

fun MultiLineInputDialog_turns ::
  "keystroke list \<Rightarrow> MultiLineInputDialog \<times> screen_log
     \<Rightarrow> (MultiLineInputDialog \<times> screen_log) option" where
  "MultiLineInputDialog_turns [] st = Some st"
| "MultiLineInputDialog_turns (inkey # keys) st =
     (case MultiLineInputDialog_key inkey st of
        Inr (Continue st') \<Rightarrow> MultiLineInputDialog_turns keys st'
      | _ \<Rightarrow> None)"

text \<open>A field with its input buffer emptied.\<close>

definition cleared :: "dialog_field \<Rightarrow> dialog_field" where
  "cleared field = field\<lparr>fld_user_input := []\<rparr>"




section \<open>Effects of statements\<close>

lemma realisesI:
  assumes "\<And>b. rect b bh bw \<Longrightarrow>
     \<exists>b'. s b = Inr b' \<and> rect b' bh bw \<and> (\<forall>r < bh. \<forall>c < bw. b' ! r ! c = overlay eff b r c)"
  shows "realises s eff bh bw"
  using assms unfolding realises_def by blast

lemma realisesD:
  assumes "realises s eff bh bw" "rect b bh bw"
  obtains b' where "s b = Inr b'" "rect b' bh bw"
    "\<And>r c. r < bh \<Longrightarrow> c < bw \<Longrightarrow> b' ! r ! c = overlay eff b r c"
  using assms unfolding realises_def by blast

lemma rect_nth: "rect b bh bw \<Longrightarrow> r < bh \<Longrightarrow> length (b ! r) = bw"
  by (simp add: rect_def list_all_length)

lemma rect_update:
  assumes "rect b bh bw" "i < bh"
  shows "rect (b[i := (b ! i)[j := x]]) bh bw"
proof -
  have "length ((b[i := (b ! i)[j := x]]) ! k) = bw" if "k < bh" for k
  proof (cases "k = i")
    case True
    then show ?thesis using assms by (simp add: rect_def list_all_length)
  next
    case False
    then show ?thesis using assms that by (simp add: rect_def list_all_length)
  qed
  then show ?thesis using assms by (simp add: rect_def list_all_length)
qed

lemma nth_update2:
  assumes "i < length b" "j < length (b ! i)"
  shows "(b[i := (b ! i)[j := x]]) ! r ! c = (if r = i \<and> c = j then x else b ! r ! c)"
proof (cases "r = i")
  case True
  then show ?thesis using assms by (simp add: nth_list_update)
next
  case False
  then show ?thesis by simp
qed

lemma realises_buf_set:
  assumes "0 \<le> r" "r < int bh" "0 \<le> c" "c < int bw"
  shows "realises (buf_set r c x) (\<lambda>p. if p = (r, c) then Some x else None) bh bw"
proof (rule realisesI)
  fix b assume R: "rect b bh bw"
  have lb: "length b = bh" using R by (simp add: rect_def)
  have rn: "nat r < bh" using assms by simp
  have lr: "length (b ! nat r) = bw" using rect_nth[OF R rn] .
  have i: "py_index (length b) r = Some (nat r)"
    using assms lb by (simp add: py_index_def)
  have j: "py_index (length (b ! nat r)) c = Some (nat c)"
    using assms lr by (simp add: py_index_def)
  let ?b' = "b[nat r := (b ! nat r)[nat c := x]]"
  have 1: "buf_set r c x b = Inr ?b'" by (simp add: buf_set_def i j)
  have 2: "rect ?b' bh bw" using R rn by (rule rect_update)
  have 3: "?b' ! r' ! c' = overlay (\<lambda>p. if p = (r, c) then Some x else None) b r' c'"
    if "r' < bh" "c' < bw" for r' c'
  proof -
    have "?b' ! r' ! c' = (if r' = nat r \<and> c' = nat c then x else b ! r' ! c')"
      using assms lb lr rn by (intro nth_update2) simp_all
    moreover have "(int r' = r \<and> int c' = c) = (r' = nat r \<and> c' = nat c)"
      using assms by auto
    ultimately show ?thesis by (simp add: overlay_def)
  qed
  show "\<exists>b'. buf_set r c x b = Inr b' \<and> rect b' bh bw \<and>
           (\<forall>r' < bh. \<forall>c' < bw. b' ! r' ! c' = overlay (\<lambda>p. if p = (r, c) then Some x else None) b r' c')"
    using 1 2 3 by blast
qed

lemma overlay_add:
  assumes "\<And>r c. r < bh \<Longrightarrow> c < bw \<Longrightarrow> b1 ! r ! c = overlay e1 b r c" "r < bh" "c < bw"
  shows "overlay e2 b1 r c = overlay (e1 ++ e2) b r c"
  using assms by (simp add: overlay_def map_add_def split: option.splits)

lemma realises_skip: "realises Inr (\<lambda>p. None) bh bw"
  by (rule realisesI) (simp add: overlay_def)

lemma run_all_append:
  "run_all (ss @ ts) b = (case run_all ss b of Inl e \<Rightarrow> Inl e | Inr b' \<Rightarrow> run_all ts b')"
  by (induction ss arbitrary: b) (simp_all split: sum.splits)

lemma run_all_single: "run_all [s] b = s b"
  by (simp split: sum.splits)

lemma realises_then:
  assumes "realises s e1 bh bw" "realises t e2 bh bw"
  shows "realises (\<lambda>b. case s b of Inl e \<Rightarrow> Inl e | Inr b' \<Rightarrow> t b') (e1 ++ e2) bh bw"
proof (rule realisesI)
  fix b assume R: "rect b bh bw"
  obtain b1 where 1: "s b = Inr b1" "rect b1 bh bw"
    "\<And>r c. r < bh \<Longrightarrow> c < bw \<Longrightarrow> b1 ! r ! c = overlay e1 b r c"
    using realisesD[OF assms(1) R] by blast
  obtain b2 where 2: "t b1 = Inr b2" "rect b2 bh bw"
    "\<And>r c. r < bh \<Longrightarrow> c < bw \<Longrightarrow> b2 ! r ! c = overlay e2 b1 r c"
    using realisesD[OF assms(2) 1(2)] by blast
  have "b2 ! r ! c = overlay (e1 ++ e2) b r c" if "r < bh" "c < bw" for r c
    using 2(3)[OF that] overlay_add[of bh bw b1 e1 b r c e2] 1(3) that by simp
  then show "\<exists>b'. (case s b of Inl e \<Rightarrow> Inl e | Inr b' \<Rightarrow> t b') = Inr b' \<and> rect b' bh bw \<and>
     (\<forall>r < bh. \<forall>c < bw. b' ! r ! c = overlay (e1 ++ e2) b r c)"
    using 1(1) 2(1) 2(2) by simp
qed

lemma realises_seq:
  assumes "realises s e1 bh bw" "realises (run_all ss) e2 bh bw"
  shows "realises (run_all (s # ss)) (e1 ++ e2) bh bw"
proof -
  have "run_all (s # ss) = (\<lambda>b. case s b of Inl e \<Rightarrow> Inl e | Inr b' \<Rightarrow> run_all ss b')"
    by (rule ext) simp
  then show ?thesis using realises_then[OF assms] by simp
qed

lemma realises_single: 
  assumes "realises s e bh bw" shows "realises (run_all [s]) e bh bw"
proof -
  have "run_all [s] = s" by (rule ext) (simp split: sum.splits)
  then show ?thesis using assms by simp
qed

lemma realises_append:
  assumes "realises (run_all ss) e1 bh bw" "realises (run_all ts) e2 bh bw"
  shows "realises (run_all (ss @ ts)) (e1 ++ e2) bh bw"
proof -
  have "run_all (ss @ ts) = (\<lambda>b. case run_all ss b of Inl e \<Rightarrow> Inl e | Inr b' \<Rightarrow> run_all ts b')"
    by (rule ext) (rule run_all_append)
  then show ?thesis using realises_then[OF assms] by simp
qed

text \<open>A loop whose first \<open>n\<close> iterations have the effect \<open>E n\<close>.\<close>

lemma realises_loop:
  assumes body: "\<And>n. n < nat (b - a) \<Longrightarrow> realises (body (a + int n)) (e n) bh bw"
    and E0: "E 0 = (\<lambda>p. None)"
    and ES: "\<And>n. n < nat (b - a) \<Longrightarrow> E (Suc n) = E n ++ e n"
  shows "realises (for_range a b body) (E (nat (b - a))) bh bw"
proof -
  have "m \<le> nat (b - a) \<Longrightarrow>
        realises (run_all (map body (map (\<lambda>i. a + int i) [0..<m]))) (E m) bh bw" for m
  proof (induction m)
    case 0
    show ?case by (simp add: E0 realises_skip)
  next
    case (Suc m)
    have m: "m < nat (b - a)" using Suc.prems by simp
    have "realises (run_all (map body (map (\<lambda>i. a + int i) [0..<m]) @ [body (a + int m)]))
            (E m ++ e m) bh bw"
      using Suc m by (intro realises_append realises_single body) simp_all
    then show ?case using ES[OF m] by simp
  qed
  from this[of "nat (b - a)"] show ?thesis by (simp add: for_range_def py_range_def)
qed


subsection \<open>Iterations over a row\<close>

lemma point_eff_eq: "(\<lambda>p. if p = (r, c) then Some x else None) = fill_eff r c (c + 1) x"
  by (rule ext) (auto simp: fill_eff_def split: if_splits)

lemma fill_eff_empty: "hi \<le> lo \<Longrightarrow> fill_eff row lo hi x = (\<lambda>p. None)"
  by (rule ext) (auto simp: fill_eff_def)

lemma fill_eff_step:
  "lo \<le> m \<Longrightarrow> fill_eff row lo (m + 1) x = fill_eff row lo m x ++ fill_eff row m (m + 1) x"
  by (rule ext) (auto simp: fill_eff_def map_add_def)

lemma realises_fill:
  assumes "0 \<le> row" "row < int bh" "lo < hi \<Longrightarrow> 0 \<le> off + lo \<and> off + hi \<le> int bw"
  shows "realises (for_range lo hi (\<lambda>c. buf_set row (off + c) x))
           (fill_eff row (off + lo) (off + hi) x) bh bw"
proof -
  let ?E = "\<lambda>n. fill_eff row (off + lo) (off + lo + int n) x"
  let ?e = "\<lambda>n. fill_eff row (off + lo + int n) (off + lo + int n + 1) x"
  have "realises (for_range lo hi (\<lambda>c. buf_set row (off + c) x)) (?E (nat (hi - lo))) bh bw"
  proof (rule realises_loop[where e = ?e])
    fix n assume n: "n < nat (hi - lo)"
    then have "lo < hi" by simp
    with assms(3) n have "0 \<le> off + (lo + int n)" "off + (lo + int n) < int bw" by auto
    from realises_buf_set[OF assms(1,2) this, of x]
    show "realises (buf_set row (off + (lo + int n)) x) (?e n) bh bw"
      by (simp add: point_eff_eq add.assoc)
  next
    show "?E 0 = (\<lambda>p. None)" by (simp add: fill_eff_empty)
  next
    fix n assume "n < nat (hi - lo)"
    show "?E (Suc n) = ?E n ++ ?e n"
      using fill_eff_step[of "off + lo" "off + lo + int n" row x] by (simp add: ac_simps)
  qed
  moreover have "?E (nat (hi - lo)) = fill_eff row (off + lo) (off + hi) x"
  proof (cases "lo \<le> hi")
    case True
    then show ?thesis by simp
  next
    case False
    then show ?thesis by (simp add: fill_eff_empty)
  qed
  ultimately show ?thesis by simp
qed

lemma realises_fill0:
  assumes "0 \<le> row" "row < int bh" "lo < hi \<Longrightarrow> 0 \<le> lo \<and> hi \<le> int bw"
  shows "realises (for_range lo hi (\<lambda>c. buf_set row c x)) (fill_eff row lo hi x) bh bw"
  using realises_fill[of row bh lo hi 0 bw x] assms by simp

lemma sprite_eff_step:
  "sprite_eff row column (take (Suc n) sprite) = 
   sprite_eff row column (take n sprite) ++ 
     (if n < length sprite then fill_eff row (column + int n) (column + int n + 1) (sprite ! n) else (\<lambda>p. None))"
  by (rule ext) (auto simp: sprite_eff_def fill_eff_def map_add_def min_def nat_diff_distrib' less_Suc_eq nat_eq_iff)

lemma realises_sprite:
  assumes "0 \<le> row" "row < int bh" "sprite \<noteq> [] \<Longrightarrow> 0 \<le> column \<and> column + int (length sprite) \<le> int bw"
  shows "realises (Sprite_render_to_buffer sprite row column bufh bufw)
           (sprite_eff row column sprite) bh bw"
proof -
  let ?E = "\<lambda>n. sprite_eff row column (take n sprite)"
  let ?e = "\<lambda>n. fill_eff row (column + int n) (column + int n + 1) (sprite ! n)"
  have "realises (for_range 0 (int (length sprite)) (\<lambda>i. buf_set row (column + i) (sprite ! nat i)))
          (?E (nat (int (length sprite) - 0))) bh bw"
  proof (rule realises_loop[where e = ?e])
    fix n assume n: "n < nat (int (length sprite) - 0)"
    then have "sprite \<noteq> []" by auto
    with assms(3) n have "0 \<le> column + int n" "column + int n < int bw" by auto
    from realises_buf_set[OF assms(1,2) this, of "sprite ! n"]
    show "realises (buf_set row (column + (0 + int n)) (sprite ! nat (0 + int n))) (?e n) bh bw"
      by (simp add: point_eff_eq)
  next
    show "?E 0 = (\<lambda>p. None)" by (rule ext) (auto simp: sprite_eff_def)
  next
    fix n assume "n < nat (int (length sprite) - 0)"
    then show "?E (Suc n) = ?E n ++ ?e n"
      using sprite_eff_step[of row column n sprite] by simp
  qed
  then show ?thesis by (simp add: Sprite_render_to_buffer_def)
qed


subsection \<open>The effect of a progress bar\<close>





subsection \<open>Rounding and truncating halves\<close>

lemma floor_half: "floor (of_int d / 2 :: rat) = d div 2"
  using floor_divide_of_int_eq[of d 2, where ?'a = rat] by simp

lemma half_frac: "(of_int d / 2 :: rat) - of_int (d div 2) = of_int (d mod 2) / 2"
proof -
  have "d = 2 * (d div 2) + d mod 2" by simp
  then have "(of_int d :: rat) = 2 * of_int (d div 2) + of_int (d mod 2)"
    by (metis of_int_add of_int_mult of_int_numeral)
  then show ?thesis by (simp add: field_simps)
qed

lemma py_round_half:
  "py_round (of_int d / 2) =
     (if even d then d div 2 else if even (d div 2) then d div 2 else d div 2 + 1)"
proof -
  have unf: "py_round (of_int d / 2) =
     (if (of_int (d mod 2) / 2 :: rat) < 1 / 2 then d div 2
      else if (1 / 2 :: rat) < of_int (d mod 2) / 2 then d div 2 + 1
      else if even (d div 2) then d div 2 else d div 2 + 1)"
    unfolding py_round_def Let_def floor_half half_frac ..
  show ?thesis
  proof (cases "even d")
    case True
    then have "d mod 2 = 0" by presburger
    then show ?thesis unfolding unf using True by simp
  next
    case False
    then have "d mod 2 = 1" by presburger
    then show ?thesis unfolding unf using False by simp
  qed
qed

lemma ceiling_half: "ceiling (of_int d / 2 :: rat) = - ((- d) div 2)"
proof -
  have "ceiling (of_int d / 2 :: rat) = - floor (- (of_int d / 2 :: rat))"
    by (simp add: ceiling_def)
  also have "- (of_int d / 2 :: rat) = of_int (- d) / 2" by simp
  finally show ?thesis by (simp only: floor_half)
qed

lemma py_int_half:
  "py_int (of_int d / 2) = (if 0 \<le> d then d div 2 else - ((- d) div 2))"
  by (simp add: py_int_def floor_half ceiling_half)

lemma halves_diff: "(of_int w / 2 - of_int l / 2 :: rat) = of_int (w - l) / 2"
  by (simp add: diff_divide_distrib)

lemma halves_diff1: "(of_int w / 2 - 1 - of_int l / 2 :: rat) = of_int (w - l - 2) / 2"
  by (simp add: field_simps)

text \<open>The three offsets of a titled top row, as integers.\<close>

lemma title_left_stop:
  "py_round (of_int w / 2 - of_int l / 2) =
     (if even (w - l) then (w - l) div 2
      else if even ((w - l) div 2) then (w - l) div 2 else (w - l) div 2 + 1)"
  by (simp only: halves_diff py_round_half)

lemma title_start:
  "py_int (of_int w / 2 - 1 - of_int l / 2) =
     (if 0 \<le> w - l - 2 then (w - l - 2) div 2 else - ((- (w - l - 2)) div 2))"
  by (simp only: halves_diff1 py_int_half)

lemma title_right_len:
  "py_int (of_int w / 2 - of_int l / 2) =
     (if 0 \<le> w - l then (w - l) div 2 else - ((- (w - l)) div 2))"
  by (simp only: halves_diff py_int_half)


subsection \<open>The effect of rendering a box\<close>

lemma realises_cell:
  assumes "0 \<le> r" "r < int bh" "0 \<le> c" "c < int bw"
  shows "realises (buf_set r c x) (fill_eff r c (c + 1) x) bh bw"
  using realises_buf_set[OF assms, of x] by (simp add: point_eff_eq)

lemma sides_eff_empty: "height \<le> 2 \<Longrightarrow> sides_eff row column width height x = (\<lambda>p. None)"
  by (rule ext) (auto simp: sides_eff_def)

lemma sides_eff_step:
  "0 \<le> n \<Longrightarrow> sides_eff row column width (n + 3) x =
     sides_eff row column width (n + 2) x
       ++ (fill_eff (row + (1 + n)) column (column + 1) x
           ++ fill_eff (row + (1 + n)) (column + width - 1) (column + width - 1 + 1) x)"
  by (rule ext) (auto simp: sides_eff_def fill_eff_def map_add_def)

lemma realises_sides:
  assumes "0 \<le> row" "row + height \<le> int bh" "0 \<le> column" "1 \<le> width"
    "column + width \<le> int bw"
  shows "realises
           (for_range 1 (height - 1)
              (\<lambda>r. run_all [buf_set (row + r) column x,
                            buf_set (row + r) (column + width - 1) x]))
           (sides_eff row column width height x) bh bw"
proof -
  let ?E = "\<lambda>n. sides_eff row column width (int n + 2) x"
  let ?e = "\<lambda>n. fill_eff (row + (1 + int n)) column (column + 1) x
           ++ fill_eff (row + (1 + int n)) (column + width - 1) (column + width - 1 + 1) x"
  have "realises
           (for_range 1 (height - 1)
              (\<lambda>r. run_all [buf_set (row + r) column x,
                            buf_set (row + r) (column + width - 1) x]))
           (?E (nat (height - 1 - 1))) bh bw"
  proof (rule realises_loop[where e = ?e])
    fix n assume n: "n < nat (height - 1 - 1)"
    then have r: "0 \<le> row + (1 + int n)" "row + (1 + int n) < int bh" using assms by auto
    have c1: "0 \<le> column" "column < int bw" using assms by auto
    have c2: "0 \<le> column + width - 1" "column + width - 1 < int bw" using assms by auto
    show "realises (run_all [buf_set (row + (1 + int n)) column x,
                            buf_set (row + (1 + int n)) (column + width - 1) x]) (?e n) bh bw"
      by (intro realises_seq realises_single realises_cell r c1 c2)
  next
    show "?E 0 = (\<lambda>p. None)" by (simp add: sides_eff_empty)
  next
    fix n assume "n < nat (height - 1 - 1)"
    show "?E (Suc n) = ?E n ++ ?e n"
      using sides_eff_step[of "int n" row column width x] by (simp add: ac_simps)
  qed
  moreover have "?E (nat (height - 1 - 1)) = sides_eff row column width height x"
  proof (cases "2 \<le> height")
    case True
    then show ?thesis by simp
  next
    case False
    then show ?thesis by (simp add: sides_eff_empty)
  qed
  ultimately show ?thesis by simp
qed

text \<open>Where the three parts of a titled top row lie, for a title shorter than the box.\<close>

lemma title_offsets:
  assumes "1 \<le> l" "l < w"
  shows "0 \<le> py_round (of_int w / 2 - of_int l / 2)"
    and "py_round (of_int w / 2 - of_int l / 2) \<le> w - 1"
    and "0 \<le> py_int (of_int w / 2 - 1 - of_int l / 2)"
    and "1 + py_int (of_int w / 2 - 1 - of_int l / 2) + l \<le> w"
    and "0 \<le> py_int (of_int w / 2 - of_int l / 2)"
    and "1 + py_int (of_int w / 2 - 1 - of_int l / 2) + l + py_int (of_int w / 2 - of_int l / 2) \<le> w"
  unfolding title_left_stop title_start title_right_len
  using assms by (auto split: if_splits)


lemma realises_top_row:
  assumes "0 \<le> row" "row < int bh" "0 \<le> column" "1 \<le> box_width self"
    and "column + box_width self \<le> int bw"
    and "length (title_sprite self) = length (text_of (cache_title self))"
    and "text_of (cache_title self) = [] \<or> int (length (text_of (cache_title self))) < box_width self"
  shows "realises
    (if text_eq_str (cache_title self) []
     then for_range (column + 1) (column + box_width self - 1)
            (\<lambda>c. buf_set row c (dialog_horizontal_border self))
     else
       (let cs = column + 1
               + py_int (of_int (box_width self) / 2 - 1
                         - of_int (int (length (text_of (cache_title self)))) / 2)
               + int (length (text_of (cache_title self)))
        in run_all
             [for_range (column + 1)
                (column + 1 + py_round (of_int (box_width self) / 2
                               - of_int (int (length (text_of (cache_title self)))) / 2))
                (\<lambda>c. buf_set row c (dialog_horizontal_border self)),
              Sprite_render_to_buffer (title_sprite self) row
                (column + 1 + py_int (of_int (box_width self) / 2 - 1
                               - of_int (int (length (text_of (cache_title self)))) / 2))
                bufh bufw,
              for_range cs (cs + py_int (of_int (box_width self) / 2
                               - of_int (int (length (text_of (cache_title self)))) / 2))
                (\<lambda>c. buf_set row c (dialog_horizontal_border self))]))
    (top_row_eff self row column) bh bw"
proof (cases "text_of (cache_title self) = []")
  case True
  have "realises (for_range (column + 1) (column + box_width self - 1)
            (\<lambda>c. buf_set row c (dialog_horizontal_border self)))
          (fill_eff row (column + 1) (column + box_width self - 1) (dialog_horizontal_border self))
          bh bw"
    using assms by (intro realises_fill0) auto
  then show ?thesis using True by (simp add: text_eq_str_def top_row_eff_def Let_def)
next
  case False
  let ?w = "box_width self" and ?l = "int (length (text_of (cache_title self)))"
  let ?H = "dialog_horizontal_border self"
  let ?L = "py_round (of_int ?w / 2 - of_int ?l / 2)"
  let ?S = "py_int (of_int ?w / 2 - 1 - of_int ?l / 2)"
  let ?R = "py_int (of_int ?w / 2 - of_int ?l / 2)"
  have l: "1 \<le> ?l" "?l < ?w" using False assms(7) by (auto simp: Suc_le_eq)
  note off = title_offsets[OF l]
  have 1: "realises (for_range (column + 1) (column + 1 + ?L) (\<lambda>c. buf_set row c ?H))
             (fill_eff row (column + 1) (column + 1 + ?L) ?H) bh bw"
    using assms(1,2,3,5) off(1,2) by (intro realises_fill0) auto
  have 2: "realises (Sprite_render_to_buffer (title_sprite self) row (column + 1 + ?S) bufh bufw)
             (sprite_eff row (column + 1 + ?S) (title_sprite self)) bh bw"
    using assms(1,2,3,5,6) off(3,4) by (intro realises_sprite) auto
  have 3: "realises (for_range (column + 1 + ?S + ?l) (column + 1 + ?S + ?l + ?R)
               (\<lambda>c. buf_set row c ?H))
             (fill_eff row (column + 1 + ?S + ?l) (column + 1 + ?S + ?l + ?R) ?H) bh bw"
    using assms(1,2,3,5) off(3,5,6) by (intro realises_fill0) auto
  have "realises (run_all
     [for_range (column + 1) (column + 1 + ?L) (\<lambda>c. buf_set row c ?H),
      Sprite_render_to_buffer (title_sprite self) row (column + 1 + ?S) bufh bufw,
      for_range (column + 1 + ?S + ?l) (column + 1 + ?S + ?l + ?R) (\<lambda>c. buf_set row c ?H)])
     (fill_eff row (column + 1) (column + 1 + ?L) ?H
      ++ (sprite_eff row (column + 1 + ?S) (title_sprite self)
      ++ fill_eff row (column + 1 + ?S + ?l) (column + 1 + ?S + ?l + ?R) ?H)) bh bw"
    by (intro realises_seq realises_single 1 2 3)
  then show ?thesis using False by (simp add: text_eq_str_def top_row_eff_def Let_def)
qed

lemma realises_Box:
  assumes "0 \<le> row" "0 \<le> column" "1 \<le> box_width self" "1 \<le> box_height self"
    and "row + box_height self \<le> int bh" "column + box_width self \<le> int bw"
    and "length (title_sprite self) = length (text_of (cache_title self))"
    and "text_of (cache_title self) = [] \<or> int (length (text_of (cache_title self))) < box_width self"
  shows "realises (Box_render_to_buffer self row column bufh bufw) (Box_eff self row column) bh bw"
proof -
  have r0: "0 \<le> row" "row < int bh" using assms by auto
  have r1: "0 \<le> row + box_height self - 1" "row + box_height self - 1 < int bh"
    using assms by auto
  have c0: "0 \<le> column" "column < int bw" using assms by auto
  have c1: "0 \<le> column + box_width self - 1" "column + box_width self - 1 < int bw"
    using assms by auto
  have bottom: "realises (for_range (column + 1) (column + box_width self - 1)
            (\<lambda>c. buf_set (row + box_height self - 1) c (dialog_horizontal_border self)))
          (fill_eff (row + box_height self - 1) (column + 1) (column + box_width self - 1)
             (dialog_horizontal_border self)) bh bw"
    using assms r1 by (intro realises_fill0) auto
  show ?thesis
    unfolding Box_render_to_buffer_def Box_eff_def Let_def
    by (intro realises_seq realises_single realises_cell realises_top_row[unfolded Let_def]
        realises_sides bottom r0 r1 c0 c1 assms)
qed


subsection \<open>Cells of a rendered box\<close>

lemma Box_render_cells:
  assumes "rect buffer bh bw"
    and "0 \<le> row" "0 \<le> column" "1 \<le> box_width self" "1 \<le> box_height self"
    and "row + box_height self \<le> int bh" "column + box_width self \<le> int bw"
    and "length (title_sprite self) = length (text_of (cache_title self))"
    and "text_of (cache_title self) = [] \<or> int (length (text_of (cache_title self))) < box_width self"
  obtains b' where "Box_render_to_buffer self row column bufh bufw buffer = Inr b'"
    and "rect b' bh bw"
    and "\<And>r c. r < bh \<Longrightarrow> c < bw \<Longrightarrow> b' ! r ! c = overlay (Box_eff self row column) buffer r c"
  using realisesD[OF realises_Box[OF assms(2-9)] assms(1)] by blast

lemma top_row_eff_outside:
  assumes "length (title_sprite self) = length (text_of (cache_title self))"
    and "text_of (cache_title self) = [] \<or> int (length (text_of (cache_title self))) < box_width self"
    and "r \<noteq> row \<or> c \<le> column"
  shows "top_row_eff self row column (r, c) = None"
proof (cases "text_of (cache_title self) = []")
  case True
  then show ?thesis using assms(3) by (auto simp: top_row_eff_def fill_eff_def)
next
  case False
  then have l: "1 \<le> int (length (text_of (cache_title self)))"
    "int (length (text_of (cache_title self))) < box_width self"
    using assms(2) by (auto simp: Suc_le_eq)
  note off = title_offsets[OF l]
  show ?thesis using False assms(1,3) off(3)
    by (auto simp: top_row_eff_def Let_def fill_eff_def sprite_eff_def map_add_def)
qed

lemma Box_eff_corners:
  assumes "2 \<le> box_width self" "2 \<le> box_height self"
    and "length (title_sprite self) = length (text_of (cache_title self))"
    and "text_of (cache_title self) = [] \<or> int (length (text_of (cache_title self))) < box_width self"
  shows "Box_eff self row column (row, column) = Some (top_right_corner self)"
    and "Box_eff self row column (row, column + box_width self - 1) = Some (top_left_corner self)"
    and "Box_eff self row column (row + box_height self - 1, column)
           = Some (bottom_right_corner self)"
    and "Box_eff self row column (row + box_height self - 1, column + box_width self - 1)
           = Some (bottom_left_corner self)"
proof -
  have "top_row_eff self row column (row, column) = None"
    using assms(3,4) by (intro top_row_eff_outside) auto
  then show "Box_eff self row column (row, column) = Some (top_right_corner self)"
    using assms(1,2) by (simp add: Box_eff_def Let_def map_add_def fill_eff_def sides_eff_def)
  show "Box_eff self row column (row, column + box_width self - 1) = Some (top_left_corner self)"
    using assms(1,2) by (simp add: Box_eff_def Let_def map_add_def fill_eff_def sides_eff_def)
  show "Box_eff self row column (row + box_height self - 1, column)
           = Some (bottom_right_corner self)"
    using assms(1,2) by (simp add: Box_eff_def Let_def map_add_def fill_eff_def sides_eff_def)
  show "Box_eff self row column (row + box_height self - 1, column + box_width self - 1)
           = Some (bottom_left_corner self)"
    using assms(1,2) by (simp add: Box_eff_def Let_def map_add_def fill_eff_def sides_eff_def)
qed

lemma Box_eff_untitled:
  assumes "2 \<le> box_width self" "2 \<le> box_height self" "text_of (cache_title self) = []"
  shows "Box_eff self row column (r, c) =
    (if r = row \<and> c = column then Some (top_right_corner self)
     else if r = row \<and> c = column + box_width self - 1 then Some (top_left_corner self)
     else if r = row + box_height self - 1 \<and> c = column then Some (bottom_right_corner self)
     else if r = row + box_height self - 1 \<and> c = column + box_width self - 1
       then Some (bottom_left_corner self)
     else if (r = row \<or> r = row + box_height self - 1) \<and> column < c \<and> c < column + box_width self - 1
       then Some (dialog_horizontal_border self)
     else if row < r \<and> r < row + box_height self - 1 \<and> (c = column \<or> c = column + box_width self - 1)
       then Some (dialog_vertical_border self)
     else None)"
  using assms
  by (simp add: Box_eff_def top_row_eff_def Let_def map_add_def fill_eff_def sides_eff_def)


subsection \<open>The cache of a built box\<close>

lemma built_box_cache:
  "text_of (cache_title (Box_build_cache self)) = title_text (box_title self)"
  "length (title_sprite (Box_build_cache self)) = length (title_text (box_title self))"
  "box_width (Box_build_cache self) = box_width self"
  "box_height (Box_build_cache self) = box_height self"
  "top_right_corner (Box_build_cache self)
     = border_sprixel (box_top_left_corner (box_config self)) (box_config self)"
  "top_left_corner (Box_build_cache self)
     = border_sprixel (box_top_right_corner (box_config self)) (box_config self)"
  "bottom_right_corner (Box_build_cache self)
     = border_sprixel (box_bottom_left_corner (box_config self)) (box_config self)"
  "bottom_left_corner (Box_build_cache self)
     = border_sprixel (box_bottom_right_corner (box_config self)) (box_config self)"
  "dialog_horizontal_border (Box_build_cache self)
     = border_sprixel (box_horizontal_border (box_config self)) (box_config self)"
  "dialog_vertical_border (Box_build_cache self)
     = border_sprixel (box_vertical_border (box_config self)) (box_config self)"
  by (simp_all add: Box_build_cache_def Let_def title_text_def Sprite_from_text_def
      split: title.split)


section \<open>ProgressBar: the marker properties and a zero maximum\<close>

text \<open>
  Claim C9. After \<^verbatim>\<open>pb.empty_marker = e\<close> and then \<^verbatim>\<open>pb.progress_marker = p\<close> (two strings),
  both setters return, the stored empty marker is \<open>e\<close> and the cached empty cell is rebuilt
  from it, and reading \<^verbatim>\<open>pb.empty_marker\<close> gives \<open>p\<close>; so when \<open>p\<close> differs from \<open>e\<close> the
  value read is not the value that was set.
\<close>

theorem empty_marker_getter_reads_progress_marker:
  "\<exists>pb1 calls1 pb2 calls2.
     ProgressBar_set_empty_marker (PyStr e) (pb, calls) = Inr (pb1, calls1) \<and>
     ProgressBar_set_progress_marker (PyStr p) (pb1, calls1) = Inr (pb2, calls2) \<and>
     ProgressBar_get_empty_marker pb2 = MarkerStr p \<and>
     pb_empty_marker pb2 = MarkerStr e \<and>
     pb_empty pb2 = Sprixel e (bg_color (pb_config pb)) (fg_color (pb_config pb)) \<and>
     (p \<noteq> e \<longrightarrow> ProgressBar_get_empty_marker pb2 \<noteq> MarkerStr e)"
  by (simp add: ProgressBar_set_empty_marker_def ProgressBar_set_progress_marker_def
      ProgressBar_get_empty_marker_def ProgressBar_build_cache_def marker_sprixel_def)

theorem empty_marker_getter_reads_progress_marker_witness:
  "''#'' \<noteq> ''.'' \<and>
   (\<exists>pb1 calls1 pb2 calls2.
     ProgressBar_set_empty_marker (PyStr ''.'') (example_bar 0 100 20, []) = Inr (pb1, calls1) \<and>
     ProgressBar_set_progress_marker (PyStr ''#'') (pb1, calls1) = Inr (pb2, calls2) \<and>
     ProgressBar_get_empty_marker pb2 = MarkerStr ''#'' \<and>
     ProgressBar_get_empty_marker pb2 \<noteq> MarkerStr ''.'')"
  using empty_marker_getter_reads_progress_marker
    [of "''.''" "example_bar 0 100 20" "[]" "''#''"]
  by auto




subsection \<open>Rows rebuilt from their parts\<close>


lemma rect_blank_buffer: "rect (blank_buffer bh bw) bh bw"
  by (simp add: rect_def blank_buffer_def list_all_length)




section \<open>ProgressBar: the rendered bar\<close>





section \<open>Box: the titled top row\<close>

subsection \<open>The box of width 20 and height 3 titled Hi\<close>

lemma hi_box:
  "box_width (example_box 20 3 ''Hi'') = 20"
  "box_height (example_box 20 3 ''Hi'') = 3"
  "text_of (cache_title (example_box 20 3 ''Hi'')) = ''Hi''"
  "title_sprite (example_box 20 3 ''Hi'')
     = [Sprixel ''H'' None (Some (Color 255 255 255)), Sprixel ''i'' None (Some (Color 255 255 255))]"
  "top_right_corner (example_box 20 3 ''Hi'') = Sprixel ''TL'' None (Some (Color 255 255 255))"
  "top_left_corner (example_box 20 3 ''Hi'') = Sprixel ''TR'' None (Some (Color 255 255 255))"
  "dialog_horizontal_border (example_box 20 3 ''Hi'') = Sprixel ''-'' None (Some (Color 255 255 255))"
  by (simp_all add: example_box_def Box_attributes_def Box_build_cache_def Let_def
      Sprite_from_text_def border_sprixel_def example_config_def)

lemma hi_box_offsets:
  "py_round (of_int (box_width (example_box 20 3 ''Hi'')) / 2
     - of_int (int (length (text_of (cache_title (example_box 20 3 ''Hi''))))) / 2) = 9"
  "py_int (of_int (box_width (example_box 20 3 ''Hi'')) / 2 - 1
     - of_int (int (length (text_of (cache_title (example_box 20 3 ''Hi''))))) / 2) = 8"
  "py_int (of_int (box_width (example_box 20 3 ''Hi'')) / 2
     - of_int (int (length (text_of (cache_title (example_box 20 3 ''Hi''))))) / 2) = 9"
  unfolding title_left_stop title_start title_right_len by (simp_all add: hi_box)

lemma hi_top_eff:
  "top_row_eff (example_box 20 3 ''Hi'') row column =
     fill_eff row (column + 1) (column + 10) (Sprixel ''-'' None (Some (Color 255 255 255)))
     ++ (sprite_eff row (column + 9)
          [Sprixel ''H'' None (Some (Color 255 255 255)),
           Sprixel ''i'' None (Some (Color 255 255 255))]
     ++ fill_eff row (column + 11) (column + 20) (Sprixel ''-'' None (Some (Color 255 255 255))))"
  unfolding top_row_eff_def Let_def hi_box_offsets by (simp add: hi_box ac_simps)

lemma hi_box_eff:
  assumes "i < 20"
  shows "Box_eff (example_box 20 3 ''Hi'') row column (row, column + int i) =
    Some (if i = 0 then Sprixel ''TL'' None (Some (Color 255 255 255))
          else if i \<le> 8 then Sprixel ''-'' None (Some (Color 255 255 255))
          else if i = 9 then Sprixel ''H'' None (Some (Color 255 255 255))
          else if i = 10 then Sprixel ''i'' None (Some (Color 255 255 255))
          else if i \<le> 18 then Sprixel ''-'' None (Some (Color 255 255 255))
          else Sprixel ''TR'' None (Some (Color 255 255 255)))"
proof -
  consider "i = 0" | "1 \<le> i" "i \<le> 8" | "i = 9" | "i = 10" | "11 \<le> i" "i \<le> 18" | "i = 19"
    using assms by linarith
  then show ?thesis
    unfolding Box_eff_def Let_def hi_top_eff
    by cases (simp_all add: hi_box map_add_def fill_eff_def sprite_eff_def sides_eff_def)
qed

lemma hi_row_nth:
  assumes "i < 20"
  shows "([TL] @ replicate 8 H @ [sH, si] @ replicate 8 H @ [TR]) ! i =
          (if i = 0 then TL else if i \<le> 8 then H else if i = 9 then sH
           else if i = 10 then si else if i \<le> 18 then H else TR)"
proof -
  consider "i = 0" | "1 \<le> i" "i \<le> 8" | "i = 9" | "i = 10" | "11 \<le> i" "i \<le> 18" | "i = 19"
    using assms by linarith
  then show ?thesis
  proof cases
    case 2
    then have "i - 1 < 8" by arith
    then show ?thesis using 2 by (simp add: nth_append nth_Cons')
  next
    case 5
    then have "\<not> i - 1 < 8" "i - 1 - 8 \<noteq> 0" "i - 1 - 8 - 1 \<noteq> 0" "i - 1 - 8 - 1 - 1 < 8"
      by arith+
    then show ?thesis using 5 by (simp add: nth_append nth_Cons')
  qed (simp_all add: nth_append nth_Cons')
qed



text \<open>
  Claim C3, as the module has it. For \<^verbatim>\<open>Box(20, 3, "Hi")\<close> rendered anywhere inside a buffer,
  the top row ends up as: the corner, 8 horizontal-border cells, the 2 title cells at
  offsets 9 and 10, 8 horizontal-border cells, the corner. The left loop writes
  \<open>round(20/2 - 2/2) = 9\<close> cells at offsets 1 to 9, the title is then written from offset
  \<open>1 + int(20/2 - 1 - 2/2) = 9\<close> and covers the last of them, the right loop writes
  \<open>int(20/2 - 2/2) = 9\<close> cells at offsets 11 to 19, and the corner written afterwards covers
  the last of those; every interior column is covered.
\<close>

theorem hi_box_top_row:
  assumes "rect buffer bh bw" "0 \<le> row" "0 \<le> column"
    and "row + 3 \<le> int bh" "column + 20 \<le> int bw"
  shows "rendered_row
           (Box_render_to_buffer (example_box 20 3 ''Hi'') row column buffer_height buffer_width
              buffer)
           (nat row) (nat column) 20
         = Some ([Sprixel ''TL'' None (Some (Color 255 255 255))]
                 @ replicate 8 (Sprixel ''-'' None (Some (Color 255 255 255)))
                 @ [Sprixel ''H'' None (Some (Color 255 255 255)),
                    Sprixel ''i'' None (Some (Color 255 255 255))]
                 @ replicate 8 (Sprixel ''-'' None (Some (Color 255 255 255)))
                 @ [Sprixel ''TR'' None (Some (Color 255 255 255))])"
proof -
  let ?B = "example_box 20 3 ''Hi''"
  let ?row = "[Sprixel ''TL'' None (Some (Color 255 255 255))]
                 @ replicate 8 (Sprixel ''-'' None (Some (Color 255 255 255)))
                 @ [Sprixel ''H'' None (Some (Color 255 255 255)),
                    Sprixel ''i'' None (Some (Color 255 255 255))]
                 @ replicate 8 (Sprixel ''-'' None (Some (Color 255 255 255)))
                 @ [Sprixel ''TR'' None (Some (Color 255 255 255))]"
  obtain b' where b': "Box_render_to_buffer ?B row column buffer_height buffer_width buffer = Inr b'"
    "rect b' bh bw"
    "\<And>r c. r < bh \<Longrightarrow> c < bw \<Longrightarrow> b' ! r ! c = overlay (Box_eff ?B row column) buffer r c"
  proof -
    have "1 \<le> box_width ?B" "1 \<le> box_height ?B"
      "row + box_height ?B \<le> int bh" "column + box_width ?B \<le> int bw"
      "length (title_sprite ?B) = length (text_of (cache_title ?B))"
      "text_of (cache_title ?B) = [] \<or> int (length (text_of (cache_title ?B))) < box_width ?B"
      using assms(4,5) by (simp_all add: hi_box)
    from Box_render_cells[OF assms(1,2,3) this,
        where bufh = buffer_height and bufw = buffer_width] that
    show ?thesis by blast
  qed
  have r: "nat row < bh" using assms by auto
  have lrow: "length (b' ! nat row) = bw" using rect_nth[OF b'(2) r] .
  have "take 20 (drop (nat column) (b' ! nat row)) = ?row"
  proof (rule nth_equalityI)
    show "length (take 20 (drop (nat column) (b' ! nat row))) = length ?row"
      using lrow assms(3,5) by simp
  next
    fix i assume "i < length (take 20 (drop (nat column) (b' ! nat row)))"
    then have i: "i < 20" by simp
    then have c: "nat column + i < bw" using assms(3,5) by auto
    have "take 20 (drop (nat column) (b' ! nat row)) ! i = b' ! nat row ! (nat column + i)"
      using i c lrow by simp
    also have "\<dots> = overlay (Box_eff ?B row column) buffer (nat row) (nat column + i)"
      using b'(3)[OF r c] .
    also have "\<dots> =
        (if i = 0 then Sprixel ''TL'' None (Some (Color 255 255 255))
         else if i \<le> 8 then Sprixel ''-'' None (Some (Color 255 255 255))
         else if i = 9 then Sprixel ''H'' None (Some (Color 255 255 255))
         else if i = 10 then Sprixel ''i'' None (Some (Color 255 255 255))
         else if i \<le> 18 then Sprixel ''-'' None (Some (Color 255 255 255))
         else Sprixel ''TR'' None (Some (Color 255 255 255)))"
      using assms(2,3) by (simp add: overlay_def hi_box_eff[OF i])
    also have "\<dots> = ?row ! i" by (rule hi_row_nth[OF i, symmetric])
    finally show "take 20 (drop (nat column) (b' ! nat row)) ! i = ?row ! i" .
  qed
  then show ?thesis by (simp add: rendered_row_def b'(1))
qed

theorem hi_box_top_row_witness:
  "rect (blank_buffer 5 24) 5 24 \<and> (0::int) \<le> 1 \<and> (0::int) \<le> 2 \<and>
   rendered_row (Box_render_to_buffer (example_box 20 3 ''Hi'') 1 2 5 24 (blank_buffer 5 24)) 1 2 20
     = Some ([Sprixel ''TL'' None (Some (Color 255 255 255))]
                 @ replicate 8 (Sprixel ''-'' None (Some (Color 255 255 255)))
                 @ [Sprixel ''H'' None (Some (Color 255 255 255)),
                    Sprixel ''i'' None (Some (Color 255 255 255))]
                 @ replicate 8 (Sprixel ''-'' None (Some (Color 255 255 255)))
                 @ [Sprixel ''TR'' None (Some (Color 255 255 255))])"
  using hi_box_top_row[OF rect_blank_buffer, of 1 2 5 24 5 24]
  by (simp add: rect_blank_buffer)


text \<open>
  The row of the claim (left segment 9, title, right segment \<open>20 - 2 - 2 - 9 = 7\<close>) is not
  the row the render leaves: the title starts one cell earlier and the right segment has 8
  cells.
\<close>

theorem hi_box_top_row_as_specified_counterexample:
  "rendered_row (Box_render_to_buffer (example_box 20 3 ''Hi'') 0 0 3 20 (blank_buffer 3 20)) 0 0 20
     \<noteq> Some (titled_top_row_as_specified (example_box 20 3 ''Hi''))"
  by code_simp


section \<open>Box: corners and border\<close>

text \<open>
  Claim C10, as the module has it. For a Box of width and height at least 2 whose title is
  shorter than its width, rendered inside the buffer, the glyph configured as
  \<^verbatim>\<open>box_top_left_corner\<close> is at \<open>(row, column)\<close>, \<^verbatim>\<open>box_top_right_corner\<close> at
  \<open>(row, column + width - 1)\<close>, \<^verbatim>\<open>box_bottom_left_corner\<close> at \<open>(row + height - 1, column)\<close> and
  \<^verbatim>\<open>box_bottom_right_corner\<close> at \<open>(row + height - 1, column + width - 1)\<close>, each in the border
  colours: the crossed cache entries and the crossed writes cancel.
\<close>

theorem box_corners_visually_correct:
  assumes "2 \<le> box_width self" "2 \<le> box_height self"
    and "int (length (title_text (box_title self))) < box_width self"
    and "rect buffer bh bw" "0 \<le> row" "0 \<le> column"
    and "row + box_height self \<le> int bh" "column + box_width self \<le> int bw"
  shows "rendered_cell
           (Box_render_to_buffer (Box_build_cache self) row column buffer_height buffer_width buffer)
           (nat row) (nat column)
         = Some (border_sprixel (box_top_left_corner (box_config self)) (box_config self))
       \<and> rendered_cell
           (Box_render_to_buffer (Box_build_cache self) row column buffer_height buffer_width buffer)
           (nat row) (nat (column + box_width self - 1))
         = Some (border_sprixel (box_top_right_corner (box_config self)) (box_config self))
       \<and> rendered_cell
           (Box_render_to_buffer (Box_build_cache self) row column buffer_height buffer_width buffer)
           (nat (row + box_height self - 1)) (nat column)
         = Some (border_sprixel (box_bottom_left_corner (box_config self)) (box_config self))
       \<and> rendered_cell
           (Box_render_to_buffer (Box_build_cache self) row column buffer_height buffer_width buffer)
           (nat (row + box_height self - 1)) (nat (column + box_width self - 1))
         = Some (border_sprixel (box_bottom_right_corner (box_config self)) (box_config self))"
proof -
  let ?B = "Box_build_cache self"
  have w: "2 \<le> box_width ?B" and h: "2 \<le> box_height ?B"
    using assms(1,2) by (simp_all add: built_box_cache)
  have sp: "length (title_sprite ?B) = length (text_of (cache_title ?B))"
    by (simp add: built_box_cache)
  have short: "text_of (cache_title ?B) = []
      \<or> int (length (text_of (cache_title ?B))) < box_width ?B"
    using assms(3) by (simp add: built_box_cache)
  obtain b' where b': "Box_render_to_buffer ?B row column buffer_height buffer_width buffer = Inr b'"
    "\<And>r c. r < bh \<Longrightarrow> c < bw \<Longrightarrow> b' ! r ! c = overlay (Box_eff ?B row column) buffer r c"
  proof -
    have "1 \<le> box_width ?B" "1 \<le> box_height ?B"
      "row + box_height ?B \<le> int bh" "column + box_width ?B \<le> int bw"
      using assms(1,2,7,8) by (simp_all add: built_box_cache)
    from Box_render_cells[OF assms(4,5,6) this sp short,
        where bufh = buffer_height and bufw = buffer_width] that
    show ?thesis by blast
  qed
  have cell: "rendered_cell
      (Box_render_to_buffer ?B row column buffer_height buffer_width buffer) (nat r) (nat c)
      = Some (case Box_eff ?B row column (r, c) of
                None \<Rightarrow> buffer ! nat r ! nat c | Some x \<Rightarrow> x)"
    if "0 \<le> r" "r < int bh" "0 \<le> c" "c < int bw" for r c
    using b'(2)[of "nat r" "nat c"] that by (simp add: b'(1) rendered_cell_def overlay_def)
  note corners = Box_eff_corners[OF w h sp short, of row column]
  have r0: "0 \<le> row" "row < int bh" using assms by auto
  have r1: "0 \<le> row + box_height self - 1" "row + box_height self - 1 < int bh"
    using assms by auto
  have c0: "0 \<le> column" "column < int bw" using assms by auto
  have c1: "0 \<le> column + box_width self - 1" "column + box_width self - 1 < int bw"
    using assms by auto
  show ?thesis
    using cell[OF r0 c0] cell[OF r0 c1] cell[OF r1 c0] cell[OF r1 c1] corners
    by (simp add: built_box_cache)
qed


theorem box_corners_visually_correct_witness:
  "rect (blank_buffer 5 8) 5 8 \<and>
   int (length (title_text (box_title (Box_attributes 6 3 (TitleStr ''Hi'') example_config))))
     < box_width (Box_attributes 6 3 (TitleStr ''Hi'') example_config) \<and>
   rendered_cell (Box_render_to_buffer (example_box 6 3 ''Hi'') 1 1 5 8 (blank_buffer 5 8)) 1 1
     = Some (Sprixel ''TL'' None (Some (Color 255 255 255))) \<and>
   rendered_cell (Box_render_to_buffer (example_box 6 3 ''Hi'') 1 1 5 8 (blank_buffer 5 8)) 1 6
     = Some (Sprixel ''TR'' None (Some (Color 255 255 255))) \<and>
   rendered_cell (Box_render_to_buffer (example_box 6 3 ''Hi'') 1 1 5 8 (blank_buffer 5 8)) 3 1
     = Some (Sprixel ''BL'' None (Some (Color 255 255 255))) \<and>
   rendered_cell (Box_render_to_buffer (example_box 6 3 ''Hi'') 1 1 5 8 (blank_buffer 5 8)) 3 6
     = Some (Sprixel ''BR'' None (Some (Color 255 255 255)))"
  using box_corners_visually_correct
    [OF _ _ _ rect_blank_buffer, of "Box_attributes 6 3 (TitleStr ''Hi'') example_config" 1 1 5 8 5 8]
  by (simp add: rect_blank_buffer example_box_def Box_attributes_def title_text_def
      border_sprixel_def example_config_def)


text \<open>
  For every Box the claim fails: with a title as long as the box is wide, the title run
  starts at the column of the left corner and is written after it. \<^verbatim>\<open>Box(4, 3, "abcd")\<close>
  shows the first character of its title at \<open>(row, column)\<close>.
\<close>

theorem box_corner_under_long_title_counterexample:
  "rendered_cell (Box_render_to_buffer (example_box 4 3 ''abcd'') 0 0 3 4 (blank_buffer 3 4)) 0 0
     \<noteq> Some (border_sprixel (box_top_left_corner example_config) example_config)"
  by code_simp


text \<open>
  The two rows must be two: a box of height 1 has its bottom row written over its top row,
  and shows the bottom corners.
\<close>

lemma box_of_height_one_shows_bottom_corners:
  "Box_render_to_buffer (example_box 3 1 []) 0 0 1 3 (blank_buffer 1 3)
     = Inr [[Sprixel ''BL'' None (Some (Color 255 255 255)),
             Sprixel ''-'' None (Some (Color 255 255 255)),
             Sprixel ''BR'' None (Some (Color 255 255 255))]]"
  by code_simp

text \<open>
  Claim C8. For a Box with an empty title, of width and height at least 2, rendered inside
  the buffer: the top row and the bottom row hold a corner cell, \<open>width - 2\<close>
  horizontal-border cells and a corner cell; every row between them holds the vertical
  border cell at its two edge columns; and every cell that is not on the border, inside the
  box or outside it, is left as it was.
\<close>

theorem untitled_box_border:
  assumes "title_text (box_title self) = []"
    and "2 \<le> box_width self" "2 \<le> box_height self"
    and "rect buffer bh bw" "0 \<le> row" "0 \<le> column"
    and "row + box_height self \<le> int bh" "column + box_width self \<le> int bw"
  shows "\<exists>b'. Box_render_to_buffer (Box_build_cache self) row column buffer_height buffer_width buffer
                = Inr b' \<and> rect b' bh bw \<and>
     (\<forall>r \<in> {row, row + box_height self - 1}.
        b' ! nat r ! nat column \<in>
          {top_right_corner (Box_build_cache self), bottom_right_corner (Box_build_cache self)} \<and>
        b' ! nat r ! nat (column + box_width self - 1) \<in>
          {top_left_corner (Box_build_cache self), bottom_left_corner (Box_build_cache self)} \<and>
        (\<forall>c. column < c \<and> c < column + box_width self - 1 \<longrightarrow>
           b' ! nat r ! nat c = dialog_horizontal_border (Box_build_cache self))) \<and>
     (\<forall>r. row < r \<and> r < row + box_height self - 1 \<longrightarrow>
        b' ! nat r ! nat column = dialog_vertical_border (Box_build_cache self) \<and>
        b' ! nat r ! nat (column + box_width self - 1)
          = dialog_vertical_border (Box_build_cache self)) \<and>
     (\<forall>r < bh. \<forall>c < bw. \<not> on_border self row column (int r) (int c) \<longrightarrow>
        b' ! r ! c = buffer ! r ! c)"
proof -
  let ?B = "Box_build_cache self"
  have w: "2 \<le> box_width ?B" and h: "2 \<le> box_height ?B"
    using assms(2,3) by (simp_all add: built_box_cache)
  have e: "text_of (cache_title ?B) = []" using assms(1) by (simp add: built_box_cache)
  have sp: "length (title_sprite ?B) = length (text_of (cache_title ?B))"
    by (simp add: built_box_cache)
  obtain b' where b': "Box_render_to_buffer ?B row column buffer_height buffer_width buffer = Inr b'"
    "rect b' bh bw"
    "\<And>r c. r < bh \<Longrightarrow> c < bw \<Longrightarrow> b' ! r ! c = overlay (Box_eff ?B row column) buffer r c"
  proof -
    have "1 \<le> box_width ?B" "1 \<le> box_height ?B"
      "row + box_height ?B \<le> int bh" "column + box_width ?B \<le> int bw"
      using assms(2,3,7,8) by (simp_all add: built_box_cache)
    from Box_render_cells[OF assms(4,5,6) this sp disjI1[OF e],
        where bufh = buffer_height and bufw = buffer_width] that
    show ?thesis by blast
  qed
  have cell: "b' ! nat r ! nat c =
      (case Box_eff ?B row column (r, c) of None \<Rightarrow> buffer ! nat r ! nat c | Some x \<Rightarrow> x)"
    if "0 \<le> r" "r < int bh" "0 \<le> c" "c < int bw" for r c
    using b'(3)[of "nat r" "nat c"] that by (simp add: overlay_def)
  note eff = Box_eff_untitled[OF w h e, of row column]
  have dims: "box_width ?B = box_width self" "box_height ?B = box_height self"
    by (simp_all add: built_box_cache)
  have rows: "b' ! nat r ! nat column \<in> {top_right_corner ?B, bottom_right_corner ?B} \<and>
        b' ! nat r ! nat (column + box_width self - 1) \<in> {top_left_corner ?B, bottom_left_corner ?B} \<and>
        (\<forall>c. column < c \<and> c < column + box_width self - 1 \<longrightarrow>
           b' ! nat r ! nat c = dialog_horizontal_border ?B)"
    if r: "r = row \<or> r = row + box_height self - 1" for r
  proof -
    have rb: "0 \<le> r" "r < int bh" using r assms by auto
    have 1: "b' ! nat r ! nat column \<in> {top_right_corner ?B, bottom_right_corner ?B}"
      using cell[OF rb, of column] r assms(2,3,6,8) by (auto simp: eff dims)
    have 2: "b' ! nat r ! nat (column + box_width self - 1)
               \<in> {top_left_corner ?B, bottom_left_corner ?B}"
      using cell[OF rb, of "column + box_width self - 1"] r assms(2,3,6,8)
      by (auto simp: eff dims)
    have 3: "b' ! nat r ! nat c = dialog_horizontal_border ?B"
      if "column < c" "c < column + box_width self - 1" for c
      using cell[OF rb, of c] r that assms(2,3,6,8) by (auto simp: eff dims)
    show ?thesis using 1 2 3 by blast
  qed
  have sides: "b' ! nat r ! nat column = dialog_vertical_border ?B \<and>
        b' ! nat r ! nat (column + box_width self - 1) = dialog_vertical_border ?B"
    if r: "row < r" "r < row + box_height self - 1" for r
  proof -
    have rb: "0 \<le> r" "r < int bh" using r assms by auto
    show ?thesis
      using cell[OF rb, of column] cell[OF rb, of "column + box_width self - 1"] r assms(2,3,6,8)
      by (auto simp: eff dims)
  qed
  have frame: "b' ! r ! c = buffer ! r ! c"
    if "r < bh" "c < bw" "\<not> on_border self row column (int r) (int c)" for r c
  proof -
    have "Box_eff ?B row column (int r, int c) = None"
      using that(3) assms(2,3) unfolding eff dims on_border_def by auto
    then show ?thesis using b'(3)[OF that(1,2)] by (simp add: overlay_def)
  qed
  show ?thesis using b'(1,2) rows sides frame by blast
qed


theorem untitled_box_border_witness:
  "title_text (box_title (Box_attributes 10 3 (TitleStr []) example_config)) = [] \<and>
   rect (blank_buffer 3 10) 3 10 \<and>
   Box_render_to_buffer (example_box 10 3 []) 0 0 3 10 (blank_buffer 3 10)
     = Inr [ [Sprixel ''TL'' None (Some (Color 255 255 255))]
               @ replicate 8 (Sprixel ''-'' None (Some (Color 255 255 255)))
               @ [Sprixel ''TR'' None (Some (Color 255 255 255))],
             [Sprixel ''|'' None (Some (Color 255 255 255))]
               @ replicate 8 blank
               @ [Sprixel ''|'' None (Some (Color 255 255 255))],
             [Sprixel ''BL'' None (Some (Color 255 255 255))]
               @ replicate 8 (Sprixel ''-'' None (Some (Color 255 255 255)))
               @ [Sprixel ''BR'' None (Some (Color 255 255 255))] ]"
proof -
  have r: "Box_render_to_buffer (example_box 10 3 []) 0 0 3 10 (blank_buffer 3 10)
     = Inr [ [Sprixel ''TL'' None (Some (Color 255 255 255))]
               @ replicate 8 (Sprixel ''-'' None (Some (Color 255 255 255)))
               @ [Sprixel ''TR'' None (Some (Color 255 255 255))],
             [Sprixel ''|'' None (Some (Color 255 255 255))]
               @ replicate 8 blank
               @ [Sprixel ''|'' None (Some (Color 255 255 255))],
             [Sprixel ''BL'' None (Some (Color 255 255 255))]
               @ replicate 8 (Sprixel ''-'' None (Some (Color 255 255 255)))
               @ [Sprixel ''BR'' None (Some (Color 255 255 255))] ]"
    by code_simp
  have "\<exists>b'. Box_render_to_buffer (example_box 10 3 []) 0 0 3 10 (blank_buffer 3 10) = Inr b'"
    using untitled_box_border
      [OF _ _ _ rect_blank_buffer, of "Box_attributes 10 3 (TitleStr []) example_config" 0 0 3 10 3 10]
    by (simp add: example_box_def Box_attributes_def title_text_def) blast
  then show ?thesis using r by (simp add: rect_blank_buffer Box_attributes_def title_text_def)
qed


text \<open>
  For an empty title the comparison of the cached title with \<^verbatim>\<open>""\<close> decides nothing: the
  statements of the other branch, run for a title of length 0 and followed by the corner
  write that comes after them, have the effect of the loop of the first branch followed by
  that write.
\<close>

lemma untitled_offsets:
  assumes "2 \<le> w"
  shows "0 \<le> py_round (of_int w / 2 - of_int (0::int) / 2)"
    and "py_round (of_int w / 2 - of_int (0::int) / 2) \<le> w - 1"
    and "0 \<le> py_int (of_int w / 2 - 1 - of_int (0::int) / 2)"
    and "py_int (of_int w / 2 - 1 - of_int (0::int) / 2)
           \<le> py_round (of_int w / 2 - of_int (0::int) / 2)"
    and "0 \<le> py_int (of_int w / 2 - of_int (0::int) / 2)"
    and "1 + py_int (of_int w / 2 - 1 - of_int (0::int) / 2)
           + py_int (of_int w / 2 - of_int (0::int) / 2) \<le> w"
    and "w - 1 \<le> 1 + py_int (of_int w / 2 - 1 - of_int (0::int) / 2)
           + py_int (of_int w / 2 - of_int (0::int) / 2)"
  unfolding title_left_stop title_start title_right_len
  using assms by (auto split: if_splits) presburger+

lemma untitled_top_row_either_branch:
  assumes "0 \<le> row" "row < int bh" "0 \<le> column" "2 \<le> w" "column + w \<le> int bw"
  shows "realises
    (run_all
       [for_range (column + 1) (column + 1 + py_round (of_int w / 2 - of_int (0::int) / 2))
          (\<lambda>c. buf_set row c H),
        Sprite_render_to_buffer [] row
          (column + 1 + py_int (of_int w / 2 - 1 - of_int (0::int) / 2)) bufh bufw,
        for_range (column + 1 + py_int (of_int w / 2 - 1 - of_int (0::int) / 2) + 0)
          (column + 1 + py_int (of_int w / 2 - 1 - of_int (0::int) / 2) + 0
             + py_int (of_int w / 2 - of_int (0::int) / 2))
          (\<lambda>c. buf_set row c H),
        buf_set row (column + w - 1) corner])
    (fill_eff row (column + 1) (column + w - 1) H
     ++ fill_eff row (column + w - 1) (column + w - 1 + 1) corner) bh bw"
proof -
  let ?L = "py_round (of_int w / 2 - of_int (0::int) / 2)"
  let ?S = "py_int (of_int w / 2 - 1 - of_int (0::int) / 2)"
  let ?R = "py_int (of_int w / 2 - of_int (0::int) / 2)"
  note off = untitled_offsets[OF assms(4)]
  have 1: "realises (for_range (column + 1) (column + 1 + ?L) (\<lambda>c. buf_set row c H))
             (fill_eff row (column + 1) (column + 1 + ?L) H) bh bw"
    using assms off(1,2) by (intro realises_fill0) auto
  have 2: "realises (Sprite_render_to_buffer [] row (column + 1 + ?S) bufh bufw)
             (sprite_eff row (column + 1 + ?S) []) bh bw"
    using assms by (intro realises_sprite) auto
  have 3: "realises (for_range (column + 1 + ?S + 0) (column + 1 + ?S + 0 + ?R)
               (\<lambda>c. buf_set row c H))
             (fill_eff row (column + 1 + ?S + 0) (column + 1 + ?S + 0 + ?R) H) bh bw"
    using assms off(3,5,6) by (intro realises_fill0) auto
  have 4: "realises (buf_set row (column + w - 1) corner)
             (fill_eff row (column + w - 1) (column + w - 1 + 1) corner) bh bw"
    using assms by (intro realises_cell) auto
  have "realises
    (run_all
       [for_range (column + 1) (column + 1 + ?L) (\<lambda>c. buf_set row c H),
        Sprite_render_to_buffer [] row (column + 1 + ?S) bufh bufw,
        for_range (column + 1 + ?S + 0) (column + 1 + ?S + 0 + ?R) (\<lambda>c. buf_set row c H),
        buf_set row (column + w - 1) corner])
    (fill_eff row (column + 1) (column + 1 + ?L) H
     ++ (sprite_eff row (column + 1 + ?S) []
     ++ (fill_eff row (column + 1 + ?S + 0) (column + 1 + ?S + 0 + ?R) H
     ++ fill_eff row (column + w - 1) (column + w - 1 + 1) corner))) bh bw"
    by (intro realises_seq realises_single 1 2 3 4)
  moreover have
    "fill_eff row (column + 1) (column + 1 + ?L) H
     ++ (sprite_eff row (column + 1 + ?S) []
     ++ (fill_eff row (column + 1 + ?S + 0) (column + 1 + ?S + 0 + ?R) H
     ++ fill_eff row (column + w - 1) (column + w - 1 + 1) corner))
     = fill_eff row (column + 1) (column + w - 1) H
       ++ fill_eff row (column + w - 1) (column + w - 1 + 1) corner"
    using off by (intro ext) (auto simp: fill_eff_def sprite_eff_def map_add_def)
  ultimately show ?thesis by simp
qed


section \<open>LineInputDialog: the input loop\<close>

lemma key_facts:
  "key_text key_enter \<noteq> []" "key_name key_enter = Some ''KEY_ENTER''"
  "key_text key_backspace \<noteq> []" "key_name key_backspace = Some ''KEY_BACKSPACE''"
  "key_text (plain_key ch) = [ch]" "key_name (plain_key ch) = None"
  by (simp_all add: key_enter_def key_backspace_def plain_key_def)

lemma LineInputDialog_enter:
  "LineInputDialog_loop (key_enter # keys) st = Some st"
  by (cases st) (simp add: LineInputDialog_key_def key_facts)

lemma LineInputDialog_backspace:
  "LineInputDialog_loop (key_backspace # keys) (self, calls) =
     LineInputDialog_loop keys
       (self\<lparr>lid_user_input := butlast (lid_user_input self)\<rparr>, redraw (lid_config self) calls)"
  by (simp add: LineInputDialog_key_def key_facts)

lemma LineInputDialog_printable:
  assumes "lid_filter self = PRINTABLE_FILTER" "char_isprintable ch"
  shows "LineInputDialog_loop (plain_key ch # keys) (self, calls) =
     LineInputDialog_loop keys
       (self\<lparr>lid_user_input := lid_user_input self @ [ch]\<rparr>, redraw (lid_config self) calls)"
  using assms by (simp add: LineInputDialog_key_def key_facts isprintable_def)

lemma abc_printable:
  "char_isprintable CHR ''a''" "char_isprintable CHR ''b''" "char_isprintable CHR ''c''"
  by (simp_all add: char_isprintable_def)


text \<open>
  Claim C6. A LineInputDialog with an empty default and the printable filter, shown with the
  keystrokes a, b, c, Backspace, Enter, returns "ab". In the loop, Enter leaves with the
  buffer as it is and \<^verbatim>\<open>show\<close> returns it; Backspace drops the last character, and nothing
  of an empty buffer; a printable character is appended under the printable filter.
\<close>

theorem line_input_abc_backspace_enter:
  assumes "lid_user_input self = []" "lid_filter self = PRINTABLE_FILTER"
  shows "map_option fst
           (LineInputDialog_show
              [plain_key CHR ''a'', plain_key CHR ''b'', plain_key CHR ''c'', key_backspace, key_enter]
              (self, calls)) = Some ''ab''
       \<and> (\<forall>keys d c. map_option fst (LineInputDialog_show (key_enter # keys) (d, c))
                        = Some (lid_user_input d))
       \<and> (\<forall>keys d c. LineInputDialog_loop (key_backspace # keys) (d, c) =
             LineInputDialog_loop keys
               (d\<lparr>lid_user_input := butlast (lid_user_input d)\<rparr>, redraw (lid_config d) c))
       \<and> (\<forall>keys d c. lid_user_input d = [] \<longrightarrow>
             LineInputDialog_loop (key_backspace # keys) (d, c) =
             LineInputDialog_loop keys (d, redraw (lid_config d) c))
       \<and> (\<forall>ch keys d c. lid_filter d = PRINTABLE_FILTER \<and> char_isprintable ch \<longrightarrow>
             LineInputDialog_loop (plain_key ch # keys) (d, c) =
             LineInputDialog_loop keys
               (d\<lparr>lid_user_input := lid_user_input d @ [ch]\<rparr>, redraw (lid_config d) c))"
proof -
  have "map_option fst
           (LineInputDialog_show
              [plain_key CHR ''a'', plain_key CHR ''b'', plain_key CHR ''c'', key_backspace, key_enter]
              (self, calls)) = Some ''ab''"
    using assms
    by (simp add: LineInputDialog_show_def LineInputDialog_printable abc_printable
        LineInputDialog_backspace LineInputDialog_enter del: LineInputDialog_loop.simps)
  moreover have "map_option fst (LineInputDialog_show (key_enter # keys) (d, c))
                        = Some (lid_user_input d)" for keys d c
    by (simp add: LineInputDialog_show_def LineInputDialog_enter del: LineInputDialog_loop.simps)
  moreover have "LineInputDialog_loop (key_backspace # keys) (d, c) =
             LineInputDialog_loop keys (d, redraw (lid_config d) c)"
    if "lid_user_input d = []" for keys d c
  proof -
    have "d\<lparr>lid_user_input := butlast (lid_user_input d)\<rparr> = d"
      using that by (cases d) simp
    then show ?thesis by (simp only: LineInputDialog_backspace)
  qed
  ultimately show ?thesis
    using LineInputDialog_backspace LineInputDialog_printable by blast
qed

theorem line_input_abc_backspace_enter_witness:
  "lid_user_input example_line_input = [] \<and> lid_filter example_line_input = PRINTABLE_FILTER \<and>
   map_option fst
     (LineInputDialog_show
        [plain_key CHR ''a'', plain_key CHR ''b'', plain_key CHR ''c'', key_backspace, key_enter]
        (example_line_input, [])) = Some ''ab''"
  using line_input_abc_backspace_enter[of example_line_input "[]"]
  by (simp add: example_line_input_def)


section \<open>MultiLineInputDialog: Escape\<close>

lemma MultiLineInputDialog_escape:
  assumes "key_name k = Some ''KEY_ESCAPE''" "key_text k \<noteq> []"
  shows "MultiLineInputDialog_loop (k # keys) (self, calls) =
           Some (Inr (self\<lparr>mld_fields := map cleared (mld_fields self)\<rparr>, calls))"
proof -
  have "cleared = (\<lambda>field. field\<lparr>fld_user_input := []\<rparr>)"
    by (rule ext) (simp add: cleared_def)
  then show ?thesis using assms by (simp add: MultiLineInputDialog_key_def)
qed

lemma MultiLineInputDialog_loop_append:
  "MultiLineInputDialog_turns pre st = Some st' \<Longrightarrow>
   MultiLineInputDialog_loop (pre @ keys) st = MultiLineInputDialog_loop keys st'"
proof (induction pre arbitrary: st)
  case Nil
  then show ?case by simp
next
  case (Cons k pre)
  then show ?case by (auto split: sum.splits turn.splits)
qed

lemma set_current_input_length:
  "set_current_input s self = Inr self' \<Longrightarrow>
   length (mld_fields self') = length (mld_fields self)"
  by (auto simp: set_current_input_def split: option.splits)

lemma MultiLineInputDialog_key_length:
  assumes "MultiLineInputDialog_key k (self, calls) = Inr (Continue (self', calls'))"
  shows "length (mld_fields self') = length (mld_fields self)"
  using assms
  by (auto simp: MultiLineInputDialog_key_def dest: set_current_input_length
      split: if_splits sum.splits)

lemma MultiLineInputDialog_turns_length:
  "MultiLineInputDialog_turns pre (self, calls) = Some (self', calls') \<Longrightarrow>
   length (mld_fields self') = length (mld_fields self)"
proof (induction pre arbitrary: self calls)
  case Nil
  then show ?case by simp
next
  case (Cons k pre)
  from Cons.prems obtain s1 c1 where
    1: "MultiLineInputDialog_key k (self, calls) = Inr (Continue (s1, c1))"
    and 2: "MultiLineInputDialog_turns pre (s1, c1) = Some (self', calls')"
    by (auto split: sum.splits turn.splits)
  show ?case using Cons.IH[OF 2] MultiLineInputDialog_key_length[OF 1] by simp
qed


text \<open>
  Claim C7. Whatever keystrokes came before without leaving the loop, pressing Escape during
  \<^verbatim>\<open>show()\<close> ends the loop and \<^verbatim>\<open>show()\<close> returns the field collection of the dialog: as many
  fields as the dialog has, each the field it was when Escape was pressed with its input
  buffer emptied, so every buffer is empty and not only that of the current field.
\<close>

theorem escape_clears_every_field:
  assumes "key_name k = Some ''KEY_ESCAPE''" "key_text k \<noteq> []"
    and "MultiLineInputDialog_turns pre
           (self\<lparr>mld_current_field := 0\<rparr>, redraw (mld_config self) calls) \<noteq> None"
  shows "\<exists>fs self' calls'.
           MultiLineInputDialog_show (pre @ k # keys) (self, calls) = Some (Inr (fs, self', calls'))
         \<and> mld_fields self' = fs
         \<and> length fs = length (mld_fields self)
         \<and> list_all (\<lambda>field. fld_user_input field = []) fs
         \<and> (\<exists>before. MultiLineInputDialog_turns pre
                (self\<lparr>mld_current_field := 0\<rparr>, redraw (mld_config self) calls)
                  = Some (before, calls')
              \<and> fs = map cleared (mld_fields before))"
proof -
  let ?init = "(self\<lparr>mld_current_field := 0\<rparr>, redraw (mld_config self) calls)"
  from assms(3) obtain before calls' where
    t: "MultiLineInputDialog_turns pre ?init = Some (before, calls')" by auto
  have len: "length (mld_fields before) = length (mld_fields self)"
    using MultiLineInputDialog_turns_length[OF t] by simp
  have "MultiLineInputDialog_loop (pre @ k # keys) ?init =
          Some (Inr (before\<lparr>mld_fields := map cleared (mld_fields before)\<rparr>, calls'))"
    using MultiLineInputDialog_loop_append[OF t] MultiLineInputDialog_escape[OF assms(1,2)]
    by simp
  then have "MultiLineInputDialog_show (pre @ k # keys) (self, calls) =
          Some (Inr (map cleared (mld_fields before),
                     before\<lparr>mld_fields := map cleared (mld_fields before)\<rparr>, calls'))"
    by (simp add: MultiLineInputDialog_show_def)
  moreover have "list_all (\<lambda>field. fld_user_input field = []) (map cleared (mld_fields before))"
    by (simp add: list_all_iff cleared_def)
  ultimately show ?thesis using len t by auto
qed

theorem escape_clears_every_field_witness:
  "key_name key_escape = Some ''KEY_ESCAPE'' \<and> key_text key_escape \<noteq> [] \<and>
   MultiLineInputDialog_turns [plain_key CHR ''a'', key_tab, plain_key CHR ''7'']
     (example_multi_input\<lparr>mld_current_field := 0\<rparr>,
      redraw (mld_config example_multi_input) []) \<noteq> None \<and>
   (\<exists>fs self' calls'.
      MultiLineInputDialog_show
        ([plain_key CHR ''a'', key_tab, plain_key CHR ''7''] @ key_escape # [])
        (example_multi_input, []) = Some (Inr (fs, self', calls'))
      \<and> length fs = length (mld_fields example_multi_input)
      \<and> list_all (\<lambda>field. fld_user_input field = []) fs)"
proof -
  have k: "key_name key_escape = Some ''KEY_ESCAPE''" "key_text key_escape \<noteq> []"
    by (simp_all add: key_escape_def)
  have t: "MultiLineInputDialog_turns [plain_key CHR ''a'', key_tab, plain_key CHR ''7'']
     (example_multi_input\<lparr>mld_current_field := 0\<rparr>,
      redraw (mld_config example_multi_input) []) \<noteq> None"
    by code_simp
  from escape_clears_every_field[OF k t, of "[]"] k t show ?thesis by blast
qed


section \<open>ProgressDialog: rendering after completion\<close>







section \<open>ProgressDialog: the mutators and the cache\<close>















end
